theory Spec2Isabelle
  imports Main "HOL-Library.Char_ord" "HOL-Library.List_Lexorder" "HOL-Library.Sublist"
begin

section \<open>civic\_ingest: a shallow embedding\<close>

text \<open>
  The Python package \<^verbatim>\<open>civic_ingest\<close> lists meeting documents of a committee page,
  downloads the PDFs and writes one metadata record per PDF. This theory embeds
  \<^verbatim>\<open>sfbos_extractor.py\<close>, \<^verbatim>\<open>models.py\<close>, \<^verbatim>\<open>sites.py\<close> and the
  \<^verbatim>\<open>extract\<close> command of \<^verbatim>\<open>cli.py\<close>.

  Conventions. A Python \<^verbatim>\<open>str\<close> and a Python \<^verbatim>\<open>bytes\<close> are both a \<open>char list\<close>
  (a \<open>char\<close> is one byte; text is read as its UTF-8 bytes). Every \<^verbatim>\<open>raise\<close> is a value
  \<open>Inl e\<close> of a sum type. The outside world (file system, HTTP server, clock, the
  PDF reader) is explicit: it is a state record or a parameter of the function.
\<close>

subsection \<open>Errors and the file system\<close>

datatype error =
    RequestError        \<comment> \<open>\<^verbatim>\<open>requests.RequestException\<close>: connection failure or bad status\<close>
  | ValueError          \<comment> \<open>raised by \<^verbatim>\<open>datetime.strptime\<close>\<close>
  | KeyError            \<comment> \<open>raised by \<^verbatim>\<open>get_site\<close>\<close>
  | FileNotFoundError
  | FileExistsError
  | IsADirectoryError
  | NotADirectoryError
  | ValidationError     \<comment> \<open>raised by pydantic when a \<^verbatim>\<open>DocRecord\<close> is built\<close>
  | ImportError
  | IndexError
  | PdfError            \<comment> \<open>any exception raised inside the PDF library\<close>

type_synonym bytes = "char list"
type_synonym path = string

text \<open>
  The part of the file system the program touches: the regular files with their content,
  and the directories. \<open>requests\<close> logs every HTTP GET that was issued, oldest first.
  A path is the string of a \<^verbatim>\<open>pathlib.Path\<close>, which is in normal form: no empty
  component, no component \<^verbatim>\<open>.\<close> except in the path \<^verbatim>\<open>.\<close> itself, no slash at the end
  except in the root. Relative paths are relative to the working directory, so an entry
  \<^verbatim>\<open>a.pdf\<close> of the directory \<^verbatim>\<open>.\<close> is the path \<^verbatim>\<open>a.pdf\<close>.
\<close>

record request =
  req_url :: string
  req_user_agent :: string
  req_timeout :: nat

record world =
  files :: "path \<rightharpoonup> bytes"
  dirs :: "path set"
  requests :: "request list"

definition exists_path :: "world \<Rightarrow> path \<Rightarrow> bool" where
  "exists_path w p \<longleftrightarrow> p \<in> dom (files w) \<or> p \<in> dirs w"

text \<open>\<^verbatim>\<open>path.open("rb")\<close> followed by reading: the bytes of a regular file, or the error.\<close>

definition open_rb :: "world \<Rightarrow> path \<Rightarrow> error + bytes" where
  "open_rb w p =
     (case files w p of
        Some content \<Rightarrow> Inr content
      | None \<Rightarrow> if p \<in> dirs w then Inl IsADirectoryError else Inl FileNotFoundError)"

subsection \<open>Content hash: \<^verbatim>\<open>_sha256_file\<close>\<close>

text \<open>
  \<^verbatim>\<open>hashlib.sha256()\<close> is a library object. Its documented contract is that
  \<^verbatim>\<open>update(a); update(b)\<close> is \<^verbatim>\<open>update(a + b)\<close> and that the digest is the SHA-256 of
  all bytes fed so far. The object is therefore modelled by the bytes fed so far; the
  compression function itself is a parameter \<open>H\<close> (message to 32-byte digest).
  \<^verbatim>\<open>hexdigest\<close> writes each digest byte as two lowercase hexadecimal digits.
\<close>

type_synonym hasher = bytes

definition hash_new :: hasher where
  "hash_new = []"

definition hash_update :: "hasher \<Rightarrow> bytes \<Rightarrow> hasher" where
  "hash_update h chunk = h @ chunk"

definition hex_digit :: "nat \<Rightarrow> char" where
  "hex_digit n = ''0123456789abcdef'' ! (n mod 16)"

definition hex_byte :: "char \<Rightarrow> string" where
  "hex_byte c = [hex_digit (of_char c div 16), hex_digit (of_char c mod 16)]"

definition hexdigest :: "(bytes \<Rightarrow> bytes) \<Rightarrow> hasher \<Rightarrow> string" where
  "hexdigest H h = concat (map hex_byte (H h))"

text \<open>
  The loop \<^verbatim>\<open>for chunk in iter(lambda: f.read(8192), b""): h.update(chunk)\<close>.
  The open file is its content and the read position; \<^verbatim>\<open>f.read(8192)\<close> returns at most
  8192 bytes from the position and advances it; the loop stops at the first empty read.
\<close>

definition file_read :: "bytes \<Rightarrow> nat \<Rightarrow> nat \<Rightarrow> bytes" where
  "file_read content pos n = take n (drop pos content)"

function read_chunks :: "bytes \<Rightarrow> nat \<Rightarrow> hasher \<Rightarrow> hasher" where
  "read_chunks content pos h =
     (let chunk = file_read content pos 8192
      in if chunk = [] then h
         else read_chunks content (pos + length chunk) (hash_update h chunk))"
  by pat_completeness auto
termination
  by (relation "measure (\<lambda>(content, pos, h). length content - pos)")
     (auto simp: file_read_def)

definition sha256_file :: "(bytes \<Rightarrow> bytes) \<Rightarrow> world \<Rightarrow> path \<Rightarrow> error + string" where
  "sha256_file H w p =
     (case open_rb w p of
        Inl e \<Rightarrow> Inl e
      | Inr content \<Rightarrow> Inr (hexdigest H (read_chunks content 0 hash_new)))"

text \<open>The digest of the whole content fed in one call, for comparison.\<close>

definition sha256_hex_oneshot :: "(bytes \<Rightarrow> bytes) \<Rightarrow> bytes \<Rightarrow> string" where
  "sha256_hex_oneshot H content = hexdigest H (hash_update hash_new content)"

subsection \<open>Strings\<close>

text \<open>
  \<^verbatim>\<open>str.lower()\<close> as far as the program uses it, which is to compare the result with
  an ASCII word: the ASCII letters are mapped, every other byte is kept. No code point
  beyond ASCII has a lower-case form that is one of the letters of \<^verbatim>\<open>minutes\<close> or
  \<^verbatim>\<open>.pdf\<close>.
\<close>

definition ascii_uppercase :: string where
  "ascii_uppercase = ''ABCDEFGHIJKLMNOPQRSTUVWXYZ''"

definition ascii_lowercase :: string where
  "ascii_lowercase = ''abcdefghijklmnopqrstuvwxyz''"

definition lower_char :: "char \<Rightarrow> char" where
  "lower_char c =
     (case map_of (zip ascii_uppercase ascii_lowercase) c of Some l \<Rightarrow> l | None \<Rightarrow> c)"

definition lower :: "string \<Rightarrow> string" where
  "lower s = map lower_char s"

text \<open>
  Python's \<^verbatim>\<open>re\<close>, \<^verbatim>\<open>strptime\<close> and \<^verbatim>\<open>str.strip\<close> work on the code points of a
  \<^verbatim>\<open>str\<close>, and their classes \<^verbatim>\<open>\s\<close> and \<^verbatim>\<open>\d\<close> are Unicode classes. Where the
  program classifies characters, the UTF-8 bytes are decoded to code points first: an
  ASCII character, or the number of a code point beyond ASCII. A byte that starts no
  well-formed sequence, which a \<^verbatim>\<open>str\<close> never holds, decodes to \<^verbatim>\<open>U+FFFD\<close>.
\<close>

datatype codepoint = Ascii char | Wide nat

definition cont_bits :: "char \<Rightarrow> nat" where
  "cont_bits c = of_char c mod 64"

function decode_utf8 :: "string \<Rightarrow> codepoint list" where
  "decode_utf8 [] = []"
| "decode_utf8 (c # cs) =
     (if \<not> digit7 c then Ascii c # decode_utf8 cs
      else
        let b = (of_char c :: nat)
        in if 0xC0 \<le> b \<and> b < 0xE0 \<and> 1 \<le> length cs then
             Wide ((b - 0xC0) * 64 + cont_bits (cs ! 0)) # decode_utf8 (drop 1 cs)
           else if 0xE0 \<le> b \<and> b < 0xF0 \<and> 2 \<le> length cs then
             Wide (((b - 0xE0) * 64 + cont_bits (cs ! 0)) * 64 + cont_bits (cs ! 1))
               # decode_utf8 (drop 2 cs)
           else if 0xF0 \<le> b \<and> b < 0xF8 \<and> 3 \<le> length cs then
             Wide ((((b - 0xF0) * 64 + cont_bits (cs ! 0)) * 64 + cont_bits (cs ! 1)) * 64
                     + cont_bits (cs ! 2)) # decode_utf8 (drop 3 cs)
           else Wide 0xFFFD # decode_utf8 cs)"
  by pat_completeness auto
termination
  by (relation "measure length") auto

definition encode_cp :: "codepoint \<Rightarrow> string" where
  "encode_cp cp =
     (case cp of
        Ascii c \<Rightarrow> [c]
      | Wide n \<Rightarrow>
          if n < 0x800 then [char_of (0xC0 + n div 64), char_of (0x80 + n mod 64)]
          else if n < 0x10000 then
            [char_of (0xE0 + n div 4096), char_of (0x80 + n div 64 mod 64),
             char_of (0x80 + n mod 64)]
          else
            [char_of (0xF0 + n div 262144), char_of (0x80 + n div 4096 mod 64),
             char_of (0x80 + n div 64 mod 64), char_of (0x80 + n mod 64)])"

definition encode_utf8 :: "codepoint list \<Rightarrow> string" where
  "encode_utf8 cps = concat (map encode_cp cps)"

text \<open>\<^verbatim>\<open>[A-Za-z]\<close>: the ASCII letters.\<close>

definition is_alpha :: "codepoint \<Rightarrow> bool" where
  "is_alpha cp \<longleftrightarrow>
     (case cp of
        Ascii c \<Rightarrow> c \<in> set ascii_uppercase \<or> c \<in> set ascii_lowercase
      | Wide n \<Rightarrow> False)"

text \<open>
  The code points that \<^verbatim>\<open>\s\<close> and \<^verbatim>\<open>str.strip()\<close> treat as white space
  (\<^verbatim>\<open>str.isspace\<close>): the ASCII ones, tab to carriage return, \<^verbatim>\<open>0x1c\<close> to \<^verbatim>\<open>0x1f\<close>
  and the space; next line, the no-break space, the Ogham space mark, the spaces
  \<^verbatim>\<open>U+2000\<close> to \<^verbatim>\<open>U+200A\<close>, the line and paragraph separators, the narrow no-break
  space, the medium mathematical space and the ideographic space.
\<close>

definition is_space :: "codepoint \<Rightarrow> bool" where
  "is_space cp \<longleftrightarrow>
     (case cp of
        Ascii c \<Rightarrow>
          c \<in> set [CHR 0x09, CHR 0x0A, CHR 0x0B, CHR 0x0C, CHR 0x0D,
                     CHR 0x1C, CHR 0x1D, CHR 0x1E, CHR 0x1F, CHR 0x20]
      | Wide n \<Rightarrow>
          n = 0x85 \<or> n = 0xA0 \<or> n = 0x1680 \<or> (0x2000 \<le> n \<and> n \<le> 0x200A) \<or> n = 0x2028
            \<or> n = 0x2029 \<or> n = 0x202F \<or> n = 0x205F \<or> n = 0x3000)"

text \<open>
  What the program takes from the platform it runs on. \<open>unicode_digit\<close> is the decimal
  digit value of a code point beyond ASCII in the interpreter's Unicode database
  (\<open>None\<close> when the code point is no decimal digit); the table grows with the Unicode
  version. \<open>short_year\<close> is what the C library's \<^verbatim>\<open>strftime("%Y")\<close> writes for a year
  below 1000, which is \<^verbatim>\<open>999\<close> on some platforms and \<^verbatim>\<open>0999\<close> on others.
\<close>

record platform =
  unicode_digit :: "nat \<Rightarrow> nat option"
  short_year :: "nat \<Rightarrow> string"

text \<open>\<^verbatim>\<open>\d\<close>, and the value \<^verbatim>\<open>int\<close> gives a digit. White space is never a digit.\<close>

definition digit_of :: "platform \<Rightarrow> codepoint \<Rightarrow> nat option" where
  "digit_of pf cp =
     (case cp of
        Ascii c \<Rightarrow> map_of (zip ''0123456789'' [0, 1, 2, 3, 4, 5, 6, 7, 8, 9]) c
      | Wide n \<Rightarrow> if is_space (Wide n) then None else unicode_digit pf n)"

definition is_digit :: "platform \<Rightarrow> codepoint \<Rightarrow> bool" where
  "is_digit pf cp \<longleftrightarrow> digit_of pf cp \<noteq> None"

definition int_of_digits :: "platform \<Rightarrow> codepoint list \<Rightarrow> nat" where
  "int_of_digits pf s =
     foldl (\<lambda>acc cp. 10 * acc + (case digit_of pf cp of Some v \<Rightarrow> v | None \<Rightarrow> 0)) 0 s"

definition strip_text :: "codepoint list \<Rightarrow> codepoint list" where
  "strip_text s = rev (dropWhile is_space (rev (dropWhile is_space s)))"

definition strip :: "string \<Rightarrow> string" where
  "strip s = encode_utf8 (strip_text (decode_utf8 s))"

text \<open>Decimal numerals: \<^verbatim>\<open>str(n)\<close>.\<close>

definition digit_char :: "nat \<Rightarrow> char" where
  "digit_char n = ''0123456789'' ! (n mod 10)"

fun dec :: "nat \<Rightarrow> string" where
  "dec n = (if n < 10 then [digit_char n] else dec (n div 10) @ [digit_char n])"

text \<open>\<^verbatim>\<open>str.zfill(k)\<close> on a string of digits.\<close>

definition zfill :: "nat \<Rightarrow> string \<Rightarrow> string" where
  "zfill k s = replicate (k - length s) (CHR ''0'') @ s"

definition endswith :: "string \<Rightarrow> string \<Rightarrow> bool" where
  "endswith s suf \<longleftrightarrow> suffix suf s"

text \<open>\<^verbatim>\<open>s.rsplit("/", 1)[-1]\<close>: what follows the last slash, or all of \<open>s\<close> without one.\<close>

definition rsplit_last :: "string \<Rightarrow> string" where
  "rsplit_last s = rev (takeWhile (\<lambda>c. c \<noteq> CHR ''/'') (rev s))"

subsection \<open>HTTP\<close>

text \<open>
  What \<^verbatim>\<open>requests.get\<close> meets on the network: no answer (connection error or timeout,
  which raises), or a response with a status code and a body. The server is a parameter
  of type \<open>server\<close>; its answer may depend on the requests made before.
  \<^verbatim>\<open>raise_for_status\<close> raises for the codes 400 to 599.
\<close>

datatype http_result = NoResponse | Response nat bytes

type_synonym server = "request list \<Rightarrow> request \<Rightarrow> http_result"

definition requests_get :: "server \<Rightarrow> request \<Rightarrow> world \<Rightarrow> (error + bytes) \<times> world" where
  "requests_get srv rq w =
     (let w' = w\<lparr>requests := requests w @ [rq]\<rparr>
      in case srv (requests w) rq of
           NoResponse \<Rightarrow> (Inl RequestError, w')
         | Response status body \<Rightarrow>
             if 400 \<le> status \<and> status < 600 then (Inl RequestError, w')
             else (Inr body, w'))"

subsection \<open>PDF acquisition: \<^verbatim>\<open>download_pdf\<close>\<close>

text \<open>
  \<^verbatim>\<open>d / name\<close> for a name without slash: the directory \<^verbatim>\<open>.\<close> adds nothing, the
  root adds no second slash.
\<close>

definition dir_prefix :: "path \<Rightarrow> string" where
  "dir_prefix d = (if d = ''.'' then [] else if endswith d ''/'' then d else d @ ''/'')"

definition join_path :: "path \<Rightarrow> string \<Rightarrow> path" where
  "join_path d name = dir_prefix d @ name"

text \<open>The ancestors of a path: its prefixes that end just before a slash.\<close>

definition ancestors :: "path \<Rightarrow> path list" where
  "ancestors p = [take i p. i \<leftarrow> [1..<length p], p ! i = CHR ''/'']"

text \<open>
  \<^verbatim>\<open>dest_dir.mkdir(parents=True, exist_ok=True)\<close>. \<^verbatim>\<open>os.mkdir\<close> fails with
  \<^verbatim>\<open>NotADirectoryError\<close> below a regular file, and with \<^verbatim>\<open>FileExistsError\<close> on a
  regular file, which \<^verbatim>\<open>exist_ok\<close> forgives for a directory only.
\<close>

definition mkdir_parents :: "world \<Rightarrow> path \<Rightarrow> error + world" where
  "mkdir_parents w d =
     (if \<exists>q \<in> set (ancestors d). q \<in> dom (files w) then Inl NotADirectoryError
      else if d \<in> dom (files w) then Inl FileExistsError
      else Inr (w\<lparr>dirs := dirs w \<union> set (d # ancestors d)\<rparr>))"

definition default_user_agent :: string where
  "default_user_agent = ''Mozilla/5.0 (civic-ingest)''"

definition pdf_name :: "string \<Rightarrow> string" where
  "pdf_name url =
     (let name = rsplit_last url
      in if \<not> endswith (lower name) ''.pdf'' then name @ ''.pdf'' else name)"

definition download_pdf ::
  "server \<Rightarrow> string \<Rightarrow> path \<Rightarrow> string option \<Rightarrow> world \<Rightarrow> (error + path) \<times> world" where
  "download_pdf srv url dest_dir headers w =
     (case mkdir_parents w dest_dir of
        Inl e \<Rightarrow> (Inl e, w)
      | Inr w1 \<Rightarrow>
          let name = pdf_name url;
              path = join_path dest_dir name
          in if exists_path w1 path then (Inr path, w1)
             else
               let ua = (case headers of Some h \<Rightarrow> h | None \<Rightarrow> default_user_agent);
                   rq = \<lparr>req_url = url, req_user_agent = ua, req_timeout = 60\<rparr>
               in case requests_get srv rq w1 of
                    (Inl e, w2) \<Rightarrow> (Inl e, w2)
                  | (Inr body, w2) \<Rightarrow> (Inr path, w2\<lparr>files := (files w2)(path \<mapsto> body)\<rparr>))"

subsection \<open>Calendar dates\<close>

record date =
  year :: nat
  month :: nat
  day :: nat

definition is_leap :: "nat \<Rightarrow> bool" where
  "is_leap y \<longleftrightarrow> y mod 4 = 0 \<and> (y mod 100 \<noteq> 0 \<or> y mod 400 = 0)"

definition days_in_month :: "nat \<Rightarrow> nat \<Rightarrow> nat" where
  "days_in_month y m =
     (if m = 2 then (if is_leap y then 29 else 28)
      else if m \<in> {4, 6, 9, 11} then 30 else 31)"

definition month_names :: "string list" where
  "month_names = [''january'', ''february'', ''march'', ''april'', ''may'', ''june'', ''july'',
     ''august'', ''september'', ''october'', ''november'', ''december'']"

text \<open>The ASCII string of a text, when it has no other code points.\<close>

fun ascii_string :: "codepoint list \<Rightarrow> string option" where
  "ascii_string [] = Some []"
| "ascii_string (Ascii c # cps) = map_option ((#) c) (ascii_string cps)"
| "ascii_string (Wide n # cps) = None"

definition month_number :: "codepoint list \<Rightarrow> nat option" where
  "month_number mon =
     (case ascii_string mon of
        None \<Rightarrow> None
      | Some name \<Rightarrow>
          map_of (zip month_names [1, 2, 3, 4, 5, 6, 7, 8, 9, 10, 11, 12]) (lower name))"

text \<open>
  \<^verbatim>\<open>datetime.strptime(s, "%B %d %Y")\<close> in the C locale. The library matches \<open>s\<close> from
  its start against the regular expression it builds from the format: a full month
  name in any letter case; \<^verbatim>\<open>\s+\<close>; the day, which is
  \<^verbatim>\<open>3[0-1]|[1-2]\d|0[1-9]|[1-9]| [1-9]\<close>; \<^verbatim>\<open>\s+\<close>; the year \<^verbatim>\<open>\d\d\d\d\<close>; and nothing
  after it. So the first character of the day is an ASCII digit, while its second
  character and the year may be any decimal digits. It then builds the date, which
  fails for the year 0 and for a day the month does not have. Every failure is
  \<^verbatim>\<open>ValueError\<close>. The month name is compared on ASCII letters: the argument comes
  from the date pattern below, whose letters are ASCII.
\<close>

definition valid_day_text :: "platform \<Rightarrow> codepoint list \<Rightarrow> bool" where
  "valid_day_text pf dd \<longleftrightarrow>
     (case dd of
        [a] \<Rightarrow> a \<in> Ascii ` set ''123456789''
      | [a, b] \<Rightarrow>
          (a = Ascii (CHR ''3'') \<and> b \<in> Ascii ` set ''01'')
            \<or> (a \<in> Ascii ` set ''12'' \<and> is_digit pf b)
            \<or> (a = Ascii (CHR ''0'') \<and> b \<in> Ascii ` set ''123456789'')
      | _ \<Rightarrow> False)"

definition strptime_BdY :: "platform \<Rightarrow> codepoint list \<Rightarrow> error + date" where
  "strptime_BdY pf s =
     (let mon = takeWhile (\<lambda>c. \<not> is_space c) s;
          r1 = dropWhile (\<lambda>c. \<not> is_space c) s;
          ws1 = takeWhile is_space r1;
          r2 = dropWhile is_space r1;
          dd = takeWhile (is_digit pf) r2;
          r3 = dropWhile (is_digit pf) r2;
          ws2 = takeWhile is_space r3;
          yyyy = dropWhile is_space r3
      in case month_number mon of
           None \<Rightarrow> Inl ValueError
         | Some m \<Rightarrow>
             if ws1 = [] \<or> \<not> valid_day_text pf dd \<or> ws2 = [] \<or> length yyyy \<noteq> 4
                \<or> \<not> list_all (is_digit pf) yyyy
             then Inl ValueError
             else
               let y = int_of_digits pf yyyy; d = int_of_digits pf dd
               in if y < 1 \<or> days_in_month y m < d then Inl ValueError
                  else Inr \<lparr>year = y, month = m, day = d\<rparr>)"

text \<open>
  \<^verbatim>\<open>dt.strftime("%Y-%m-%d")\<close>: month and day in two digits; the year as the C library
  writes it, which is the decimal numeral from 1000 on.
\<close>

definition year_text :: "platform \<Rightarrow> nat \<Rightarrow> string" where
  "year_text pf y = (if 1000 \<le> y then dec y else short_year pf y)"

definition strftime_Ymd :: "platform \<Rightarrow> date \<Rightarrow> string" where
  "strftime_Ymd pf dt =
     year_text pf (year dt) @ ''-'' @ zfill 2 (dec (month dt)) @ ''-'' @ zfill 2 (dec (day dt))"

subsection \<open>The parsed listing page\<close>

text \<open>
  The tree that \<^verbatim>\<open>BeautifulSoup(r.text, "html.parser")\<close> builds: text nodes, and elements
  with a tag name, an attribute dictionary (an association list with distinct keys) and
  children. The parser itself is a parameter of \<open>fetch_listing\<close>.
\<close>

datatype node = Text string | Element string "(string \<times> string) list" "node list"

text \<open>A node followed by all its descendants, in document order.\<close>

fun subtree :: "node \<Rightarrow> node list" where
  "subtree (Text s) = [Text s]"
| "subtree (Element name attrs children) =
     Element name attrs children # concat (map subtree children)"

definition descendants :: "node \<Rightarrow> node list" where
  "descendants n = (case n of Text s \<Rightarrow> [] | Element name attrs children \<Rightarrow> concat (map subtree children))"

definition is_tag :: "string \<Rightarrow> node \<Rightarrow> bool" where
  "is_tag name n = (case n of Text s \<Rightarrow> False | Element name' attrs children \<Rightarrow> name' = name)"

definition get_attr :: "node \<Rightarrow> string \<Rightarrow> string option" where
  "get_attr n key = (case n of Text s \<Rightarrow> None | Element name attrs children \<Rightarrow> map_of attrs key)"

text \<open>\<^verbatim>\<open>tag.find_all(name)\<close> and \<^verbatim>\<open>tag.find(name)\<close>.\<close>

definition find_all :: "string \<Rightarrow> node \<Rightarrow> node list" where
  "find_all name n = filter (is_tag name) (descendants n)"

definition find_first :: "string \<Rightarrow> node \<Rightarrow> node option" where
  "find_first name n = find (is_tag name) (descendants n)"

text \<open>
  \<^verbatim>\<open>tag.get_text(strip=True)\<close>: every text node below the tag is stripped, the empty ones
  are dropped, and the rest is concatenated. The result is kept as code points, for
  the date pattern.
\<close>

definition text_of :: "node \<Rightarrow> string list" where
  "text_of n = (case n of Text s \<Rightarrow> [s] | Element name attrs children \<Rightarrow> [])"

definition get_text_strip :: "node \<Rightarrow> codepoint list" where
  "get_text_strip n =
     concat (filter (\<lambda>t. t \<noteq> [])
               (map (\<lambda>t. strip_text (decode_utf8 t)) (concat (map text_of (descendants n)))))"

text \<open>
  \<^verbatim>\<open>re.compile(r"\.pdf$", re.I).search(href)\<close>: the letters in any case, at the end of the
  string or just before a line feed that ends the string.
\<close>

definition pdf_href_re :: "string \<Rightarrow> bool" where
  "pdf_href_re h \<longleftrightarrow>
     endswith (lower h) ''.pdf'' \<or> endswith (lower h) (''.pdf'' @ [CHR 0x0A])"

text \<open>\<^verbatim>\<open>file_td.find("a", href=re.compile(r"\.pdf$", re.I))\<close>.\<close>

definition find_pdf_link :: "node \<Rightarrow> node option" where
  "find_pdf_link td =
     find (\<lambda>n. is_tag ''a'' n \<and>
                (case get_attr n ''href'' of None \<Rightarrow> False | Some h \<Rightarrow> pdf_href_re h))
       (descendants td)"

subsection \<open>The date pattern of a listing row\<close>

text \<open>
  \<^verbatim>\<open>re.search(r"([A-Za-z]+\s+\d{1,2},?\s+\d{4})", date_text)\<close>. \<open>match_date_at\<close> matches the
  pattern at the start of a string. Each part can only take what the greedy first try
  takes, because what follows a part never matches a character the part could give
  back: the letters and the white space are maximal runs, the day is the first two
  digits of its run if the run has two, the comma is taken if it is there. The search
  returns the match at the leftmost position that has one.
\<close>

definition match_date_at :: "platform \<Rightarrow> codepoint list \<Rightarrow> codepoint list option" where
  "match_date_at pf s =
     (let letters = takeWhile is_alpha s;
          r1 = dropWhile is_alpha s;
          ws1 = takeWhile is_space r1;
          r2 = dropWhile is_space r1;
          dd = take 2 (takeWhile (is_digit pf) r2);
          r3 = drop (length dd) r2;
          comma = (case r3 of [] \<Rightarrow> [] | c # cs \<Rightarrow> if c = Ascii (CHR '','') then [c] else []);
          r4 = drop (length comma) r3;
          ws2 = takeWhile is_space r4;
          r5 = dropWhile is_space r4;
          yyyy = take 4 r5
      in if letters \<noteq> [] \<and> ws1 \<noteq> [] \<and> dd \<noteq> [] \<and> ws2 \<noteq> [] \<and> length yyyy = 4
            \<and> list_all (is_digit pf) yyyy
         then Some (letters @ ws1 @ dd @ comma @ ws2 @ yyyy)
         else None)"

fun re_search_date :: "platform \<Rightarrow> codepoint list \<Rightarrow> codepoint list option" where
  "re_search_date pf [] = None"
| "re_search_date pf (c # cs) =
     (case match_date_at pf (c # cs) of Some m \<Rightarrow> Some m | None \<Rightarrow> re_search_date pf cs)"

text \<open>\<^verbatim>\<open>m.group(1).replace(",", "")\<close>.\<close>

definition remove_commas :: "codepoint list \<Rightarrow> codepoint list" where
  "remove_commas s = filter (\<lambda>c. c \<noteq> Ascii (CHR '','')) s"

subsection \<open>The record schema: \<^verbatim>\<open>models.py\<close>\<close>

text \<open>
  The pydantic models. \<^verbatim>\<open>Literal["minutes", "agenda"]\<close> is a datatype; building a
  \<^verbatim>\<open>DocRecord\<close> from any other string raises \<^verbatim>\<open>ValidationError\<close>. A
  \<^verbatim>\<open>datetime\<close> is a date with a time of day.
\<close>

record datetime = date +
  hour :: nat
  minute :: nat
  second :: nat
  microsecond :: nat

record ExtractedItem =
  position :: int
  title :: string

record ExtractedPayload =
  title :: "string option"
  items :: "ExtractedItem list"

record ExtractorMeta =
  name :: string
  version :: string

datatype doc_type_literal = Minutes | Agenda

record DocRecord =
  source_url :: string
  doc_type :: doc_type_literal
  committee :: "string option"
  meeting_date :: "date option"
  sha256 :: string
  mime :: string
  file_size :: "int option"
  page_count :: "int option"
  extracted :: ExtractedPayload
  extracted_at :: datetime
  extractor :: ExtractorMeta

definition ExtractorMeta_default :: ExtractorMeta where
  "ExtractorMeta_default = \<lparr>name = ''civic-ingest'', version = ''0.1.0''\<rparr>"

definition validate_doc_type :: "string \<Rightarrow> error + doc_type_literal" where
  "validate_doc_type s =
     (if s = ''minutes'' then Inr Minutes
      else if s = ''agenda'' then Inr Agenda
      else Inl ValidationError)"

text \<open>
  The call \<^verbatim>\<open>DocRecord(source_url=..., doc_type=..., committee=..., sha256=...,
  file_size=..., page_count=..., extracted=...)\<close> of \<^verbatim>\<open>extract_metadata\<close>: the fields
  that are not passed take their defaults, \<^verbatim>\<open>extracted_at\<close> the clock reading \<open>now\<close>.
\<close>

definition DocRecord_new ::
  "datetime \<Rightarrow> string \<Rightarrow> string \<Rightarrow> string option \<Rightarrow> string \<Rightarrow> int option \<Rightarrow> int option \<Rightarrow>
   ExtractedPayload \<Rightarrow> error + DocRecord" where
  "DocRecord_new now url dtype comm sha fsize npages payload =
     (case validate_doc_type dtype of
        Inl e \<Rightarrow> Inl e
      | Inr t \<Rightarrow>
          Inr \<lparr>source_url = url, doc_type = t, committee = comm, meeting_date = None,
               sha256 = sha, mime = ''application/pdf'', file_size = fsize, page_count = npages,
               extracted = payload, extracted_at = now, extractor = ExtractorMeta_default\<rparr>)"

subsection \<open>Serialization: \<^verbatim>\<open>to_jsonl_line\<close>\<close>

text \<open>
  Modelled from the spec: \<^verbatim>\<open>model_dump_json\<close> is a method of the pydantic library, which
  is not part of the source tree. The spec gives its contract: one compact JSON object
  per record with no embedded newlines, the field names of the schema, dates as ISO-8601,
  timestamps as ISO-8601 with time. The model is the JSON value of the record
  (\<open>model_dump\<close>), written without white space (\<open>dumps\<close>), with the string escapes
  of JSON: quote, backslash, and every control character below \<^verbatim>\<open>0x20\<close>.
\<close>

datatype json =
    JNull
  | JInt int
  | JString string
  | JArray "json list"
  | JObject "(string \<times> json) list"

definition str_int :: "int \<Rightarrow> string" where
  "str_int i = (if i < 0 then ''-'' @ dec (nat (- i)) else dec (nat i))"

definition escape_char :: "char \<Rightarrow> string" where
  "escape_char c =
     (if c = CHR 0x22 then [CHR 0x5C, CHR 0x22]
      else if c = CHR 0x5C then [CHR 0x5C, CHR 0x5C]
      else if c = CHR 0x08 then [CHR 0x5C, CHR ''b'']
      else if c = CHR 0x0C then [CHR 0x5C, CHR ''f'']
      else if c = CHR 0x0A then [CHR 0x5C, CHR ''n'']
      else if c = CHR 0x0D then [CHR 0x5C, CHR ''r'']
      else if c = CHR 0x09 then [CHR 0x5C, CHR ''t'']
      else if (of_char c :: nat) < 32 then [CHR 0x5C, CHR ''u'', CHR ''0'', CHR ''0''] @ hex_byte c
      else [c])"

definition quote :: "string \<Rightarrow> string" where
  "quote s = [CHR 0x22] @ concat (map escape_char s) @ [CHR 0x22]"

text \<open>\<^verbatim>\<open>",".join(parts)\<close>.\<close>

fun join_comma :: "string list \<Rightarrow> string" where
  "join_comma [] = []"
| "join_comma [x] = x"
| "join_comma (x # y # ys) = x @ '','' @ join_comma (y # ys)"

fun dumps :: "json \<Rightarrow> string" where
  "dumps JNull = ''null''"
| "dumps (JInt i) = str_int i"
| "dumps (JString s) = quote s"
| "dumps (JArray xs) = ''['' @ join_comma (map dumps xs) @ '']''"
| "dumps (JObject kvs) =
     ''{'' @ join_comma (map (\<lambda>kv. quote (fst kv) @ '':'' @ dumps (snd kv)) kvs) @ ''}''"

definition isoformat_date :: "'a date_scheme \<Rightarrow> string" where
  "isoformat_date d =
     zfill 4 (dec (year d)) @ ''-'' @ zfill 2 (dec (month d)) @ ''-'' @ zfill 2 (dec (day d))"

definition isoformat_datetime :: "datetime \<Rightarrow> string" where
  "isoformat_datetime t =
     isoformat_date t @ ''T'' @ zfill 2 (dec (hour t)) @ '':'' @ zfill 2 (dec (minute t)) @ '':''
       @ zfill 2 (dec (second t))
       @ (if microsecond t = 0 then [] else ''.'' @ zfill 6 (dec (microsecond t)))"

definition json_opt :: "('a \<Rightarrow> json) \<Rightarrow> 'a option \<Rightarrow> json" where
  "json_opt f x = (case x of None \<Rightarrow> JNull | Some v \<Rightarrow> f v)"

definition doc_type_str :: "doc_type_literal \<Rightarrow> string" where
  "doc_type_str t = (case t of Minutes \<Rightarrow> ''minutes'' | Agenda \<Rightarrow> ''agenda'')"

definition dump_item :: "ExtractedItem \<Rightarrow> json" where
  "dump_item it =
     JObject [(''position'', JInt (position it)), (''title'', JString (ExtractedItem.title it))]"

definition dump_payload :: "ExtractedPayload \<Rightarrow> json" where
  "dump_payload p =
     JObject [(''title'', json_opt JString (ExtractedPayload.title p)),
              (''items'', JArray (map dump_item (items p)))]"

definition dump_meta :: "ExtractorMeta \<Rightarrow> json" where
  "dump_meta m = JObject [(''name'', JString (name m)), (''version'', JString (version m))]"

definition model_dump :: "DocRecord \<Rightarrow> json" where
  "model_dump r =
     JObject [(''source_url'', JString (source_url r)),
              (''doc_type'', JString (doc_type_str (doc_type r))),
              (''committee'', json_opt JString (committee r)),
              (''meeting_date'', json_opt (\<lambda>d. JString (isoformat_date d)) (meeting_date r)),
              (''sha256'', JString (sha256 r)),
              (''mime'', JString (mime r)),
              (''file_size'', json_opt JInt (file_size r)),
              (''page_count'', json_opt JInt (page_count r)),
              (''extracted'', dump_payload (extracted r)),
              (''extracted_at'', JString (isoformat_datetime (extracted_at r))),
              (''extractor'', dump_meta (extractor r))]"

definition to_jsonl_line :: "DocRecord \<Rightarrow> string" where
  "to_jsonl_line record = dumps (model_dump record)"

subsection \<open>Metadata builder: \<^verbatim>\<open>extract_metadata\<close>\<close>

text \<open>
  The PDF library is a capability that may be missing: \<open>None\<close> is a failing
  \<^verbatim>\<open>import pdfplumber\<close>. \<^verbatim>\<open>pdfplumber.open\<close> raises or gives a document; reading
  \<^verbatim>\<open>pdf.pages\<close> raises or gives the pages; \<^verbatim>\<open>extract_text()\<close> on a page raises or
  gives a string or \<^verbatim>\<open>None\<close>.
\<close>

datatype pdf_page = Page "error + string option"

datatype pdf_document = Document "error + pdf_page list"

type_synonym pdf_library = "(path \<Rightarrow> error + pdf_document) option"

definition extract_text :: "pdf_page \<Rightarrow> error + string option" where
  "extract_text pg = (case pg of Page r \<Rightarrow> r)"

definition pages :: "pdf_document \<Rightarrow> error + pdf_page list" where
  "pages pdf = (case pdf of Document r \<Rightarrow> r)"

text \<open>
  \<^verbatim>\<open>re.search(r"(?:Meeting|Agenda).*", first_text, re.I)\<close> and \<^verbatim>\<open>m.group(0)\<close>: from the
  leftmost place where one of the two words starts to the end of that line. With
  \<^verbatim>\<open>re.I\<close> a letter of the pattern matches its two ASCII forms, and the letter
  \<^verbatim>\<open>i\<close> also matches the two other code points that have it as a case form,
  \<^verbatim>\<open>U+0130\<close> and \<^verbatim>\<open>U+0131\<close>.
\<close>

definition ci_letter :: "char \<Rightarrow> codepoint \<Rightarrow> bool" where
  "ci_letter p cp \<longleftrightarrow>
     (case cp of
        Ascii c \<Rightarrow> lower_char c = p
      | Wide n \<Rightarrow> p = CHR ''i'' \<and> (n = 0x130 \<or> n = 0x131))"

definition ci_prefix :: "string \<Rightarrow> codepoint list \<Rightarrow> bool" where
  "ci_prefix word s \<longleftrightarrow>
     length word \<le> length s \<and> list_all2 ci_letter word (take (length word) s)"

fun search_title_text :: "codepoint list \<Rightarrow> codepoint list option" where
  "search_title_text [] = None"
| "search_title_text (c # cs) =
     (if ci_prefix ''meeting'' (c # cs) \<or> ci_prefix ''agenda'' (c # cs)
      then Some (takeWhile (\<lambda>x. x \<noteq> Ascii (CHR 0x0A)) (c # cs))
      else search_title_text cs)"

definition search_title :: "string \<Rightarrow> string option" where
  "search_title s = map_option encode_utf8 (search_title_text (decode_utf8 s))"

text \<open>
  The \<^verbatim>\<open>try\<close> block. The two locals start as \<^verbatim>\<open>None\<close>; an exception leaves the block
  with the values assigned so far, and \<^verbatim>\<open>except Exception: pass\<close> drops it.
  \<^verbatim>\<open>page_count\<close> is assigned before the first page is read.
\<close>

definition introspect :: "pdf_library \<Rightarrow> path \<Rightarrow> int option \<times> string option" where
  "introspect lib pdf_path =
     (case lib of
        None \<Rightarrow> (None, None)
      | Some pdfplumber_open \<Rightarrow>
          (case pdfplumber_open pdf_path of
             Inl e \<Rightarrow> (None, None)
           | Inr pdf \<Rightarrow>
               (case pages pdf of
                  Inl e \<Rightarrow> (None, None)
                | Inr ps \<Rightarrow>
                    let npages = Some (int (length ps))
                    in case ps of
                         [] \<Rightarrow> (npages, None)
                       | pg # rest \<Rightarrow>
                           (case extract_text pg of
                              Inl e \<Rightarrow> (npages, None)
                            | Inr t \<Rightarrow>
                                let first_text = (case t of None \<Rightarrow> [] | Some txt \<Rightarrow> txt)
                                in (npages, map_option strip (search_title first_text))))))"

text \<open>\<^verbatim>\<open>pdf_path.stat().st_size\<close>.\<close>

definition stat_size :: "world \<Rightarrow> path \<Rightarrow> error + int" where
  "stat_size w p =
     (case files w p of
        Some content \<Rightarrow> Inr (int (length content))
      | None \<Rightarrow> if p \<in> dirs w then Inr 4096 else Inl FileNotFoundError)"

definition extract_metadata ::
  "(bytes \<Rightarrow> bytes) \<Rightarrow> pdf_library \<Rightarrow> datetime \<Rightarrow> world \<Rightarrow> path \<Rightarrow> string \<Rightarrow> string option \<Rightarrow>
   string \<Rightarrow> error + DocRecord" where
  "extract_metadata H lib now w pdf_path url comm dtype =
     (case sha256_file H w pdf_path of
        Inl e \<Rightarrow> Inl e
      | Inr sha \<Rightarrow>
          (case stat_size w pdf_path of
             Inl e \<Rightarrow> Inl e
           | Inr fsize \<Rightarrow>
               (case introspect lib pdf_path of
                  (npages, ttl) \<Rightarrow>
                    DocRecord_new now url dtype comm sha (Some fsize) npages
                      \<lparr>title = ttl, items = []\<rparr>)))"

subsection \<open>Listing extractor: \<^verbatim>\<open>fetch_listing\<close>\<close>

record FetchConfig =
  since_year :: int
  doc_type :: string
  user_agent :: string

text \<open>
  The body of the \<^verbatim>\<open>for row in rows\<close> loop, with \<^verbatim>\<open>out\<close> as accumulator. Each
  \<^verbatim>\<open>continue\<close> goes on with the rows that are left; the \<^verbatim>\<open>ValueError\<close> of
  \<^verbatim>\<open>strptime\<close> is not caught and ends the loop. \<^verbatim>\<open>requests.compat.urljoin\<close> is the
  parameter \<open>urljoin\<close>.
\<close>

fun rows_loop ::
  "platform \<Rightarrow> (string \<Rightarrow> string \<Rightarrow> string) \<Rightarrow> string \<Rightarrow> FetchConfig \<Rightarrow> node list \<Rightarrow>
   (string \<times> string) list \<Rightarrow> error + (string \<times> string) list" where
  "rows_loop pf urljoin base_url cfg [] out = Inr out"
| "rows_loop pf urljoin base_url cfg (row # rows) out =
     (let cols = find_all ''td'' row
      in if length cols < 3 then rows_loop pf urljoin base_url cfg rows out
         else
           let date_text = get_text_strip (cols ! 0)
           in case re_search_date pf date_text of
                None \<Rightarrow> rows_loop pf urljoin base_url cfg rows out
              | Some m \<Rightarrow>
                  (case strptime_BdY pf (remove_commas m) of
                     Inl e \<Rightarrow> Inl e
                   | Inr dt \<Rightarrow>
                       if int (year dt) < since_year cfg
                       then rows_loop pf urljoin base_url cfg rows out
                       else
                         let file_td = (if lower (doc_type cfg) = ''minutes''
                                        then cols ! 2 else cols ! 1)
                         in case find_pdf_link file_td of
                              None \<Rightarrow> rows_loop pf urljoin base_url cfg rows out
                            | Some link \<Rightarrow>
                                (case get_attr link ''href'' of
                                   None \<Rightarrow> rows_loop pf urljoin base_url cfg rows out
                                 | Some href \<Rightarrow>
                                     if href = [] then rows_loop pf urljoin base_url cfg rows out
                                     else rows_loop pf urljoin base_url cfg rows
                                            (out @ [(strftime_Ymd pf dt, urljoin base_url href)]))))"

definition fetch_listing ::
  "platform \<Rightarrow> server \<Rightarrow> (string \<Rightarrow> node) \<Rightarrow> (string \<Rightarrow> string \<Rightarrow> string) \<Rightarrow> string \<Rightarrow>
   FetchConfig \<Rightarrow> world \<Rightarrow> (error + (string \<times> string) list) \<times> world" where
  "fetch_listing pf srv html_parser urljoin base_url cfg w =
     (let rq = \<lparr>req_url = base_url, req_user_agent = user_agent cfg, req_timeout = 30\<rparr>
      in case requests_get srv rq w of
           (Inl e, w') \<Rightarrow> (Inl e, w')
         | (Inr body, w') \<Rightarrow>
             let soup = html_parser body
             in case find_first ''table'' soup of
                  None \<Rightarrow> (Inr [], w')
                | Some table \<Rightarrow>
                    (rows_loop pf urljoin base_url cfg (drop 1 (find_all ''tr'' table)) [], w'))"

subsection \<open>The listing, row by row\<close>

text \<open>
  What the listing is, said row by row and without a loop, to compare \<open>fetch_listing\<close>
  with. \<open>row_date\<close> is the date of a row: none for a row with fewer than three
  cells or without a date text in its first cell, else what parsing the matched text
  gives. \<open>cell_href\<close> is the target of the first PDF link of a cell. A row with a
  date not before \<open>since\<close> has the entry of the link of its cell number \<open>idx\<close>, when
  that cell has one; every other row has no entry. \<open>data_rows\<close> are the rows of the
  first table after its header row. The listing of the rows is their entries in order,
  unless the date of a row fails to parse.
\<close>

definition row_date :: "platform \<Rightarrow> node \<Rightarrow> (error + date) option" where
  "row_date pf row =
     (let cols = find_all ''td'' row
      in if length cols < 3 then None
         else case re_search_date pf (get_text_strip (cols ! 0)) of
                None \<Rightarrow> None
              | Some m \<Rightarrow> Some (strptime_BdY pf (remove_commas m)))"

definition cell_href :: "node \<Rightarrow> string option" where
  "cell_href cell =
     (case find_pdf_link cell of
        None \<Rightarrow> None
      | Some link \<Rightarrow>
          (case get_attr link ''href'' of
             None \<Rightarrow> None
           | Some h \<Rightarrow> if h = [] then None else Some h))"

definition link_entries ::
  "platform \<Rightarrow> (string \<Rightarrow> string \<Rightarrow> string) \<Rightarrow> string \<Rightarrow> node \<Rightarrow> date \<Rightarrow> (string \<times> string) list" where
  "link_entries pf urljoin base cell dt =
     (case cell_href cell of
        None \<Rightarrow> []
      | Some h \<Rightarrow> [(strftime_Ymd pf dt, urljoin base h)])"

definition row_entries ::
  "platform \<Rightarrow> (string \<Rightarrow> string \<Rightarrow> string) \<Rightarrow> string \<Rightarrow> int \<Rightarrow> nat \<Rightarrow> node \<Rightarrow>
   (string \<times> string) list" where
  "row_entries pf urljoin base since idx row =
     (case row_date pf row of
        Some (Inr dt) \<Rightarrow>
          if int (year dt) < since then []
          else link_entries pf urljoin base (find_all ''td'' row ! idx) dt
      | _ \<Rightarrow> [])"

definition date_raises :: "platform \<Rightarrow> node \<Rightarrow> bool" where
  "date_raises pf row = (case row_date pf row of Some (Inl e) \<Rightarrow> True | _ \<Rightarrow> False)"

definition data_rows :: "node \<Rightarrow> node list" where
  "data_rows soup =
     (case find_first ''table'' soup of
        None \<Rightarrow> []
      | Some table \<Rightarrow> drop 1 (find_all ''tr'' table))"

definition listing_of ::
  "platform \<Rightarrow> (string \<Rightarrow> string \<Rightarrow> string) \<Rightarrow> string \<Rightarrow> int \<Rightarrow> nat \<Rightarrow> node list \<Rightarrow>
   error + (string \<times> string) list" where
  "listing_of pf urljoin base since idx rows =
     (if list_ex (date_raises pf) rows then Inl ValueError
      else Inr (concat (map (row_entries pf urljoin base since idx) rows)))"

definition listing_request :: "string \<Rightarrow> string \<Rightarrow> request" where
  "listing_request base ua = \<lparr>req_url = base, req_user_agent = ua, req_timeout = 30\<rparr>"

subsection \<open>Site registry: \<^verbatim>\<open>sites.py\<close>\<close>

record Site =
  key :: string
  name :: string
  base_url :: string
  committee :: string
  default_doc_type :: string

definition SITES :: "Site list" where
  "SITES =
     [\<lparr>key = ''sfbos_lut'',
       name = ''SF Board of Supervisors '' @ [CHR 0xE2, CHR 0x80, CHR 0x93]
                @ '' Land Use and Transportation'',
       base_url = ''https://sfbos.org/meetings/land-use-and-transportation-committee'',
       committee = ''Land Use and Transportation'',
       default_doc_type = ''minutes''\<rparr>]"

definition get_site :: "string \<Rightarrow> error + Site" where
  "get_site k = (case find (\<lambda>s. key s = k) SITES of Some s \<Rightarrow> Inr s | None \<Rightarrow> Inl KeyError)"

subsection \<open>The \<^verbatim>\<open>extract\<close> command: \<^verbatim>\<open>cmd_extract\<close>\<close>

text \<open>The parsed arguments \<^verbatim>\<open>args.site\<close>, \<^verbatim>\<open>args.input\<close>, \<^verbatim>\<open>args.out\<close>, \<^verbatim>\<open>args.doc_type\<close>.\<close>

record ExtractArgs =
  arg_site :: string
  arg_input :: path
  arg_out :: path
  arg_doc_type :: "string option"

text \<open>\<^verbatim>\<open>out_path.parent\<close>.\<close>

definition parent :: "path \<Rightarrow> path" where
  "parent p =
     (if CHR ''/'' \<notin> set p then ''.''
      else let d = rev (drop 1 (dropWhile (\<lambda>c. c \<noteq> CHR ''/'') (rev p)))
           in if d = [] then ''/'' else d)"

text \<open>
  \<^verbatim>\<open>out_path.open("w", encoding="utf-8")\<close>: the file is created or cut to length zero.
  What the loop writes goes to the handle, which buffers it; all of it is in the file
  when the \<^verbatim>\<open>with\<close> block closes the handle, also when an exception leaves the block.
\<close>

definition open_w :: "world \<Rightarrow> path \<Rightarrow> error + world" where
  "open_w w p =
     (if p \<in> dirs w then Inl IsADirectoryError else Inr (w\<lparr>files := (files w)(p \<mapsto> [])\<rparr>))"

definition close_w :: "world \<Rightarrow> path \<Rightarrow> string \<Rightarrow> world" where
  "close_w w p written = w\<lparr>files := (files w)(p \<mapsto> written)\<rparr>"

text \<open>
  \<^verbatim>\<open>sorted(in_dir.glob("*.pdf"))\<close>: the entries of the directory whose name ends in
  \<^verbatim>\<open>.pdf\<close>, files and directories alike, in the order of their path strings.
\<close>

definition is_pdf_entry :: "path \<Rightarrow> path \<Rightarrow> bool" where
  "is_pdf_entry d p \<longleftrightarrow>
     (let k = length (dir_prefix d); entry = drop k p
      in take k p = dir_prefix d \<and> CHR ''/'' \<notin> set entry \<and> endswith entry ''.pdf'')"

definition glob_pdf :: "world \<Rightarrow> path \<Rightarrow> path list" where
  "glob_pdf w d = sorted_list_of_set {p \<in> dom (files w) \<union> dirs w. is_pdf_entry d p}"

text \<open>
  The loop over the PDFs, with the text written so far and \<^verbatim>\<open>count\<close>. \<open>clock i\<close> is
  what \<^verbatim>\<open>datetime.utcnow()\<close> returns when record number \<open>i\<close> is built. While the
  loop runs the output file holds the part of the written text that the handle has
  passed on already: \<open>flushed written\<close>, a parameter, since the buffering is the
  platform's (each record is one \<^verbatim>\<open>write\<close> of one line, so the text written so far
  determines the writes made so far). This matters only when the output file is itself
  one of the PDFs that the loop reads.
\<close>

fun write_records ::
  "(bytes \<Rightarrow> bytes) \<Rightarrow> pdf_library \<Rightarrow> (nat \<Rightarrow> datetime) \<Rightarrow> (string \<Rightarrow> string) \<Rightarrow> world \<Rightarrow>
   path \<Rightarrow> Site \<Rightarrow> string \<Rightarrow> path list \<Rightarrow> string \<Rightarrow> nat \<Rightarrow> error option \<times> string \<times> nat" where
  "write_records H lib clock flushed w out_path site dtype [] written count =
     (None, written, count)"
| "write_records H lib clock flushed w out_path site dtype (pdf # pdfs) written count =
     (case extract_metadata H lib (clock count)
             (w\<lparr>files := (files w)(out_path \<mapsto> flushed written)\<rparr>) pdf (''file://'' @ pdf)
             (Some (committee site)) dtype of
        Inl e \<Rightarrow> (Some e, written, count)
      | Inr rec \<Rightarrow>
          write_records H lib clock flushed w out_path site dtype pdfs
            (written @ to_jsonl_line rec @ [CHR 0x0A]) (count + 1))"

text \<open>The result is the return code with the printed line, or the exception.\<close>

definition cmd_extract ::
  "(bytes \<Rightarrow> bytes) \<Rightarrow> pdf_library \<Rightarrow> (nat \<Rightarrow> datetime) \<Rightarrow> (string \<Rightarrow> string) \<Rightarrow> ExtractArgs \<Rightarrow>
   world \<Rightarrow> (error + int \<times> string) \<times> world" where
  "cmd_extract H lib clock flushed args w =
     (case get_site (arg_site args) of
        Inl e \<Rightarrow> (Inl e, w)
      | Inr site \<Rightarrow>
          let in_dir = arg_input args; out_path = arg_out args
          in case mkdir_parents w (parent out_path) of
               Inl e \<Rightarrow> (Inl e, w)
             | Inr w1 \<Rightarrow>
                 let dtype = (case arg_doc_type args of
                                None \<Rightarrow> default_doc_type site
                              | Some d \<Rightarrow> if d = [] then default_doc_type site else d)
                 in case open_w w1 out_path of
                      Inl e \<Rightarrow> (Inl e, w1)
                    | Inr w2 \<Rightarrow>
                        (case write_records H lib clock flushed w2 out_path site dtype
                                (glob_pdf w2 in_dir) [] 0 of
                           (Some e, written, count) \<Rightarrow> (Inl e, close_w w2 out_path written)
                         | (None, written, count) \<Rightarrow>
                             (Inr (0, ''Wrote '' @ dec count @ '' records to '' @ out_path),
                              close_w w2 out_path written)))"

subsection \<open>Example files\<close>

definition utc_2024 :: datetime where
  "utc_2024 = \<lparr>year = 2024, month = 1, day = 2, hour = 3, minute = 4, second = 5,
               microsecond = 0\<rparr>"

text \<open>A directory with one PDF, and an output file left by an earlier run.\<close>

definition pdf_world :: world where
  "pdf_world = \<lparr>files = [''in/a.pdf'' \<mapsto> ''abc'', ''out/records.jsonl'' \<mapsto> ''old''],
                dirs = {''in'', ''out''}, requests = []\<rparr>"

text \<open>The arguments of a run over that directory, and the record of its PDF.\<close>

definition extract_args :: ExtractArgs where
  "extract_args = \<lparr>arg_site = ''sfbos_lut'', arg_input = ''in'',
                    arg_out = ''out/records.jsonl'', arg_doc_type = None\<rparr>"

definition record_a :: DocRecord where
  "record_a = \<lparr>source_url = ''file://in/a.pdf'', doc_type = Minutes,
                committee = Some ''Land Use and Transportation'', meeting_date = None,
                sha256 = ''616263'', mime = ''application/pdf'', file_size = Some 3,
                page_count = None, extracted = \<lparr>title = None, items = []\<rparr>,
                extracted_at = utc_2024, extractor = ExtractorMeta_default\<rparr>"

text \<open>
  A working directory with one PDF, a file that is no PDF, and a PDF in a directory
  below.
\<close>

definition cwd_world :: world where
  "cwd_world = \<lparr>files = [''a.pdf'' \<mapsto> ''abc'', ''notes.txt'' \<mapsto> ''n'', ''sub/b.pdf'' \<mapsto> ''b''],
                dirs = {''.'', ''sub''}, requests = []\<rparr>"

text \<open>A handle that keeps all it is given until it is closed, as for a short output.\<close>

definition no_flush :: "string \<Rightarrow> string" where
  "no_flush written = []"

text \<open>A PDF library that opens the file and counts three pages, then fails on the text.\<close>

definition failing_text_library :: pdf_library where
  "failing_text_library =
     Some (\<lambda>p. Inr (Document (Inr [Page (Inl PdfError), Page (Inr None), Page (Inr None)])))"

subsection \<open>Example listing pages\<close>

text \<open>Small listing tables, used to run \<open>fetch_listing\<close> on concrete input.\<close>

definition td_text :: "string \<Rightarrow> node" where
  "td_text t = Element ''td'' [] [Text t]"

definition td_link :: "string \<Rightarrow> string \<Rightarrow> node" where
  "td_link label href = Element ''td'' [] [Element ''a'' [(''href'', href)] [Text label]]"

definition tr :: "node list \<Rightarrow> node" where
  "tr cells = Element ''tr'' [] cells"

definition header_row :: node where
  "header_row = tr [Element ''th'' [] [Text ''Date''], Element ''th'' [] [Text ''Agenda''],
                    Element ''th'' [] [Text ''Minutes'']]"

definition listing_page :: "node list \<Rightarrow> node" where
  "listing_page rows = Element ''[document]'' [] [Element ''table'' [] (header_row # rows)]"

definition row_2017 :: node where
  "row_2017 = tr [td_text ''March 1, 2017'', td_link ''Agenda'' ''a17.pdf'',
                  td_link ''Minutes'' ''m17.pdf'']"

definition row_2019 :: node where
  "row_2019 = tr [td_text ''June 15, 2019'', td_link ''Agenda'' ''a19.pdf'',
                  td_link ''Minutes'' ''m19.pdf'']"

definition row_2020 :: node where
  "row_2020 = tr [td_text ''January 7, 2020'', td_link ''Agenda'' ''agenda.pdf'',
                  td_link ''Minutes'' ''minutes.pdf'']"

definition row_sept :: node where
  "row_sept = tr [td_text ''Sept 5, 2020'', td_link ''Agenda'' ''a.pdf'',
                  td_link ''Minutes'' ''m.pdf'']"

text \<open>
  A stand-in for \<^verbatim>\<open>urljoin\<close> on these pages, where every link is a plain file name:
  the base URL up to its last slash, followed by the link.
\<close>

definition join_relative :: "string \<Rightarrow> string \<Rightarrow> string" where
  "join_relative base href = rev (dropWhile (\<lambda>c. c \<noteq> CHR ''/'') (rev base)) @ href"

text \<open>
  A platform for the examples: it knows the Arabic-Indic and the full-width digits, and
  its C library writes a short year without padding.
\<close>

definition example_platform :: platform where
  "example_platform =
     \<lparr>unicode_digit = (\<lambda>n. if 0x660 \<le> n \<and> n \<le> 0x669 then Some (n - 0x660)
                             else if 0xFF10 \<le> n \<and> n \<le> 0xFF19 then Some (n - 0xFF10)
                             else None),
      short_year = dec\<rparr>"

text \<open>The same date as \<open>row_2019\<close>, written with no-break spaces.\<close>

definition row_nbsp :: node where
  "row_nbsp = tr [td_text (''June'' @ [CHR 0xC2, CHR 0xA0] @ ''15,'' @ [CHR 0xC2, CHR 0xA0] @ ''2019''),
                  td_link ''Agenda'' ''a19.pdf'', td_link ''Minutes'' ''m19.pdf'']"

definition ok_server :: server where
  "ok_server history rq = Response 200 []"

definition empty_world :: world where
  "empty_world = \<lparr>files = Map.empty, dirs = {}, requests = []\<rparr>"

section \<open>Properties\<close>

subsection \<open>Content hash\<close>

lemmas read_chunks_unfold = read_chunks.simps

declare read_chunks.simps [simp del]

lemmas dec_unfold = dec.simps

declare dec.simps [simp del]

lemma take_chunk_rest: "take n xs @ drop (length (take n xs)) xs = xs"
  by (cases "n \<le> length xs") (simp_all add: min_def)

lemma read_chunks_acc:
  "pos \<le> length content \<Longrightarrow> read_chunks content pos h = h @ drop pos content"
proof (induction content pos h rule: read_chunks.induct)
  case (1 content pos h)
  let ?chunk = "file_read content pos 8192"
  show ?case
  proof (cases "?chunk = []")
    case True
    with "1.prems" have "drop pos content = []"
      by (auto simp: file_read_def)
    with True show ?thesis
      by (subst read_chunks_unfold) (simp add: Let_def)
  next
    case False
    have len: "pos + length ?chunk \<le> length content"
      using "1.prems" by (simp add: file_read_def)
    have split: "?chunk @ drop (pos + length ?chunk) content = drop pos content"
      using take_chunk_rest [of 8192 "drop pos content"]
      by (simp add: file_read_def add.commute [of pos])
    have "read_chunks content pos h =
          read_chunks content (pos + length ?chunk) (hash_update h ?chunk)"
      using False by (subst read_chunks_unfold) (simp add: Let_def)
    also have "\<dots> = hash_update h ?chunk @ drop (pos + length ?chunk) content"
      using "1.IH" [OF refl False len] .
    also have "\<dots> = h @ drop pos content"
      using split by (simp add: hash_update_def)
    finally show ?thesis .
  qed
qed

lemma hex_digit_lower: "hex_digit n \<in> set ''0123456789abcdef''"
  unfolding hex_digit_def by (rule nth_mem) simp

lemma pair_subset: "a \<in> S \<Longrightarrow> b \<in> S \<Longrightarrow> set [a, b] \<subseteq> S"
  by simp

lemma hex_byte_lower: "set (hex_byte c) \<subseteq> set ''0123456789abcdef''"
  unfolding hex_byte_def by (rule pair_subset) (rule hex_digit_lower)+

lemma concat_map_subset:
  "(\<And>x. set (f x) \<subseteq> S) \<Longrightarrow> set (concat (map f xs)) \<subseteq> S"
  by (induction xs) auto

lemma hexdigest_lower: "set (hexdigest H h) \<subseteq> set ''0123456789abcdef''"
  unfolding hexdigest_def by (rule concat_map_subset) (rule hex_byte_lower)

text \<open>
  C8. For every regular file, the hash that \<^verbatim>\<open>_sha256_file\<close> computes by feeding the file
  in chunks of 8192 bytes until the empty read is the hex digest of the whole content
  fed in a single call, and it consists of lowercase hexadecimal digits only.
\<close>

theorem sha256_file_streamed_eq_oneshot:
  assumes "files w p = Some content"
  shows "sha256_file H w p = Inr (sha256_hex_oneshot H content) \<and>
         set (sha256_hex_oneshot H content) \<subseteq> set ''0123456789abcdef''"
proof -
  have "read_chunks content 0 hash_new = hash_update hash_new content"
    using read_chunks_acc [of 0 content hash_new]
    by (simp add: hash_update_def)
  with assms have "sha256_file H w p = Inr (sha256_hex_oneshot H content)"
    by (simp add: sha256_file_def open_rb_def sha256_hex_oneshot_def)
  moreover have "set (sha256_hex_oneshot H content) \<subseteq> set ''0123456789abcdef''"
    unfolding sha256_hex_oneshot_def by (rule hexdigest_lower)
  ultimately show ?thesis by simp
qed

theorem sha256_file_streamed_eq_oneshot_witness:
  "files \<lparr>files = [''a.pdf'' \<mapsto> ''abc''], dirs = {}, requests = []\<rparr> ''a.pdf'' = Some ''abc'' \<and>
   sha256_file (\<lambda>b. b) \<lparr>files = [''a.pdf'' \<mapsto> ''abc''], dirs = {}, requests = []\<rparr> ''a.pdf''
     = Inr ''616263''"
  using sha256_file_streamed_eq_oneshot
    [of "\<lparr>files = [''a.pdf'' \<mapsto> ''abc''], dirs = {}, requests = []\<rparr>" "''a.pdf''" "''abc''" "\<lambda>b. b"]
  by (simp add: sha256_hex_oneshot_def hexdigest_def hash_update_def hash_new_def
      hex_byte_def hex_digit_def)

subsection \<open>PDF acquisition\<close>

lemma not_in_ancestors:
  assumes "2 \<le> length n"
  shows "join_path d n \<notin> set (d # ancestors d)"
proof -
  have "length q \<le> length d" if "q \<in> set (d # ancestors d)" for q
    using that by (auto simp: ancestors_def)
  moreover have "length d < length (join_path d n)"
    using assms by (auto simp: join_path_def dir_prefix_def)
  ultimately show ?thesis by fastforce
qed

lemma pdf_name_length: "2 \<le> length (pdf_name url)"
proof (cases "endswith (lower (rsplit_last url)) ''.pdf''")
  case True
  then have "length ''.pdf'' \<le> length (lower (rsplit_last url))"
    unfolding endswith_def by (rule suffix_length_le)
  with True show ?thesis
    by (simp add: pdf_name_def lower_def)
next
  case False
  then show ?thesis
    by (simp add: pdf_name_def)
qed

lemma mkdir_parents_Inr:
  assumes "mkdir_parents w d = Inr w1"
  shows "files w1 = files w" and "requests w1 = requests w"
    and "dirs w1 = dirs w \<union> set (d # ancestors d)"
    and "\<forall>q \<in> set (d # ancestors d). q \<notin> dom (files w)"
  using assms by (auto simp: mkdir_parents_def split: if_splits)

lemma mkdir_parents_exists:
  assumes "mkdir_parents w d = Inr w1" and "2 \<le> length n"
  shows "exists_path w1 (join_path d n) = exists_path w (join_path d n)"
  using mkdir_parents_Inr [OF assms(1)] not_in_ancestors [OF assms(2), of d]
  by (simp add: exists_path_def)

lemma mkdir_parents_again:
  assumes "set (d # ancestors d) \<subseteq> dirs w" "\<forall>q \<in> set (d # ancestors d). q \<notin> dom (files w)"
  shows "mkdir_parents w d = Inr w"
proof -
  have "dirs w \<union> set (d # ancestors d) = dirs w"
    using assms(1) by blast
  then have "w\<lparr>dirs := dirs w \<union> set (d # ancestors d)\<rparr> = w"
    by simp
  with assms(2) show ?thesis
    unfolding mkdir_parents_def by auto
qed

lemma download_pdf_hit:
  assumes "mkdir_parents w d = Inr w1" "exists_path w1 (join_path d (pdf_name url))"
  shows "download_pdf srv url d h w = (Inr (join_path d (pdf_name url)), w1)"
  using assms by (simp add: download_pdf_def Let_def)

lemma requests_get_Inr:
  assumes "requests_get srv rq w = (Inr body, w')"
  shows "w' = w\<lparr>requests := requests w @ [rq]\<rparr>"
  using assms by (auto simp: requests_get_def Let_def split: http_result.splits if_splits)

lemma download_pdf_Inr:
  assumes "download_pdf srv url d h w = (Inr p, w')"
  shows "p = join_path d (pdf_name url)"
    and "mkdir_parents w' d = Inr w'"
    and "exists_path w' p"
    and "requests w' =
      (if exists_path w p then requests w
       else requests w @ [\<lparr>req_url = url,
              req_user_agent = (case h of Some ua \<Rightarrow> ua | None \<Rightarrow> default_user_agent),
              req_timeout = 60\<rparr>])"
proof -
  obtain w1 where mk: "mkdir_parents w d = Inr w1"
    using assms by (auto simp: download_pdf_def split: sum.splits)
  note m = mkdir_parents_Inr [OF mk]
  let ?p = "join_path d (pdf_name url)"
  let ?rq = "\<lparr>req_url = url,
              req_user_agent = (case h of Some ua \<Rightarrow> ua | None \<Rightarrow> default_user_agent),
              req_timeout = 60\<rparr>"
  have ex: "exists_path w1 ?p = exists_path w ?p"
    by (rule mkdir_parents_exists [OF mk pdf_name_length])
  have again1: "mkdir_parents w1 d = Inr w1"
    using m by (intro mkdir_parents_again) auto
  show "p = ?p"
    using assms mk by (auto simp: download_pdf_def Let_def split: if_splits prod.splits sum.splits)
  have "mkdir_parents w' d = Inr w' \<and> exists_path w' ?p \<and>
        requests w' = (if exists_path w ?p then requests w else requests w @ [?rq])"
  proof (cases "exists_path w1 ?p")
    case True
    with assms mk have "w' = w1"
      by (simp add: download_pdf_def Let_def)
    with True again1 ex m(2) show ?thesis by simp
  next
    case False
    with assms mk obtain body w2 where
      get: "requests_get srv ?rq w1 = (Inr body, w2)" and
      w': "w' = w2\<lparr>files := (files w2)(?p \<mapsto> body)\<rparr>"
      by (auto simp: download_pdf_def Let_def split: prod.splits sum.splits)
    have w2: "w2 = w1\<lparr>requests := requests w1 @ [?rq]\<rparr>"
      by (rule requests_get_Inr [OF get])
    have "mkdir_parents w' d = Inr w'"
    proof (rule mkdir_parents_again)
      show "set (d # ancestors d) \<subseteq> dirs w'"
        using m(3) w' w2 by auto
      show "\<forall>q\<in>set (d # ancestors d). q \<notin> dom (files w')"
        using m(1,4) w' w2 not_in_ancestors [OF pdf_name_length, of d url] by auto
    qed
    moreover have "exists_path w' ?p"
      using w' by (simp add: exists_path_def)
    moreover have "requests w' = requests w @ [?rq]"
      using w' w2 m(2) by simp
    ultimately show ?thesis
      using False ex by simp
  qed
  with \<open>p = ?p\<close> show "mkdir_parents w' d = Inr w'" "exists_path w' p"
    "requests w' = (if exists_path w p then requests w else requests w @ [?rq])"
    by simp_all
qed

text \<open>
  C5. Two calls of \<^verbatim>\<open>download_pdf\<close> with the same URL and destination directory: when
  the first call returns a path, the second call returns the same path and leaves the
  world as it is, so it issues no request, whatever the server would answer. The first
  call issued no request when the file of the derived name was already there, and exactly
  one request otherwise; so both calls together fetch at most once, and exactly once
  when the file was not there before.
\<close>

theorem download_pdf_idempotent:
  assumes "download_pdf srv url d h w = (Inr p, w1)"
  shows "download_pdf srv' url d h' w1 = (Inr p, w1) \<and>
         requests w1 =
           (if exists_path w (join_path d (pdf_name url)) then requests w
            else requests w @ [\<lparr>req_url = url,
              req_user_agent = (case h of Some ua \<Rightarrow> ua | None \<Rightarrow> default_user_agent),
              req_timeout = 60\<rparr>])"
  using download_pdf_Inr [OF assms] download_pdf_hit [of w1 d w1 url srv' h']
  by simp

lemma rsplit_last_props:
  "CHR ''/'' \<notin> set (rsplit_last s)" "suffix (rsplit_last s) s"
  "rsplit_last s \<noteq> s \<Longrightarrow> suffix (CHR ''/'' # rsplit_last s) s"
proof -
  let ?P = "\<lambda>c. c \<noteq> CHR ''/''"
  show "CHR ''/'' \<notin> set (rsplit_last s)"
    using set_takeWhileD [of "CHR ''/''" ?P "rev s"] by (auto simp: rsplit_last_def)
  have split: "rev (dropWhile ?P (rev s)) @ rsplit_last s = s"
    using takeWhile_dropWhile_id [of ?P "rev s"]
    by (metis rev_append rev_rev_ident rsplit_last_def)
  then show "suffix (rsplit_last s) s"
    by (metis suffixI)
  show "suffix (CHR ''/'' # rsplit_last s) s" if "rsplit_last s \<noteq> s"
  proof -
    have ne: "dropWhile ?P (rev s) \<noteq> []"
    proof
      assume "dropWhile ?P (rev s) = []"
      with split have "rsplit_last s = s" by simp
      with that show False by simp
    qed
    then have "hd (dropWhile ?P (rev s)) = CHR ''/''"
      using hd_dropWhile [of ?P "rev s"] by auto
    with ne obtain t where "dropWhile ?P (rev s) = CHR ''/'' # t"
      by (cases "dropWhile ?P (rev s)") auto
    with split have "rev t @ CHR ''/'' # rsplit_last s = s" by simp
    then show ?thesis by (metis suffixI)
  qed
qed

text \<open>
  C10. The local name is derived from what follows the last slash of the whole URL string
  (a query suffix included), with \<^verbatim>\<open>.pdf\<close> appended when it does not end in it. The
  existence check looks at that name only: once \<^verbatim>\<open>download_pdf\<close> has returned for one
  URL, a call for any URL with the same derived name returns the path of the first file
  and issues no request.
\<close>

theorem download_pdf_same_name:
  assumes "pdf_name url2 = pdf_name url1"
    and "download_pdf srv url1 d h w = (Inr p, w1)"
  shows "download_pdf srv' url2 d h' w1 = (Inr p, w1) \<and>
         p = join_path d (pdf_name url1) \<and>
         pdf_name url1 =
           (if endswith (lower (rsplit_last url1)) ''.pdf'' then rsplit_last url1
            else rsplit_last url1 @ ''.pdf'') \<and>
         CHR ''/'' \<notin> set (rsplit_last url1) \<and> suffix (rsplit_last url1) url1 \<and>
         (rsplit_last url1 \<noteq> url1 \<longrightarrow> suffix (CHR ''/'' # rsplit_last url1) url1)"
  using download_pdf_Inr(1-3) [OF assms(2)] download_pdf_hit [of w1 d w1 url2 srv' h']
    assms(1) rsplit_last_props [of url1]
  by (simp add: pdf_name_def Let_def)


lemmas str_defs = lower_def lower_char_def ascii_uppercase_def ascii_lowercase_def endswith_def rsplit_last_def suffix_to_prefix

theorem download_pdf_idempotent_witness:
  "download_pdf (\<lambda>hist rq. Response 200 ''%PDF'') ''http://a.test/x/doc.pdf'' ''out'' None
     \<lparr>files = Map.empty, dirs = {}, requests = []\<rparr>
   = (Inr ''out/doc.pdf'',
      \<lparr>files = [''out/doc.pdf'' \<mapsto> ''%PDF''], dirs = {''out''},
       requests = [\<lparr>req_url = ''http://a.test/x/doc.pdf'',
                    req_user_agent = default_user_agent, req_timeout = 60\<rparr>]\<rparr>) \<and>
   download_pdf (\<lambda>hist rq. NoResponse) ''http://a.test/x/doc.pdf'' ''out'' None
     \<lparr>files = [''out/doc.pdf'' \<mapsto> ''%PDF''], dirs = {''out''},
      requests = [\<lparr>req_url = ''http://a.test/x/doc.pdf'',
                   req_user_agent = default_user_agent, req_timeout = 60\<rparr>]\<rparr>
   = (Inr ''out/doc.pdf'',
      \<lparr>files = [''out/doc.pdf'' \<mapsto> ''%PDF''], dirs = {''out''},
       requests = [\<lparr>req_url = ''http://a.test/x/doc.pdf'',
                    req_user_agent = default_user_agent, req_timeout = 60\<rparr>]\<rparr>)"
proof -
  have first: "download_pdf (\<lambda>hist rq. Response 200 ''%PDF'') ''http://a.test/x/doc.pdf'' ''out'' None
     \<lparr>files = Map.empty, dirs = {}, requests = []\<rparr>
   = (Inr ''out/doc.pdf'',
      \<lparr>files = [''out/doc.pdf'' \<mapsto> ''%PDF''], dirs = {''out''},
       requests = [\<lparr>req_url = ''http://a.test/x/doc.pdf'',
                    req_user_agent = default_user_agent, req_timeout = 60\<rparr>]\<rparr>)"
    by (simp add: download_pdf_def mkdir_parents_def ancestors_def pdf_name_def str_defs
        join_path_def dir_prefix_def exists_path_def requests_get_def Let_def)
  note second = download_pdf_idempotent
    [OF first, of "\<lambda>hist rq. NoResponse" None, THEN conjunct1]
  from first second show ?thesis by (intro conjI)
qed

theorem download_pdf_same_name_witness:
  "pdf_name ''http://b.test/y/doc.pdf?v=1'' = pdf_name ''http://a.test/x/doc.pdf?v=1'' \<and>
   download_pdf (\<lambda>hist rq. Response 200 ''%PDF'') ''http://a.test/x/doc.pdf?v=1'' ''out'' None
     \<lparr>files = Map.empty, dirs = {}, requests = []\<rparr>
   = (Inr ''out/doc.pdf?v=1.pdf'',
      \<lparr>files = [''out/doc.pdf?v=1.pdf'' \<mapsto> ''%PDF''], dirs = {''out''},
       requests = [\<lparr>req_url = ''http://a.test/x/doc.pdf?v=1'',
                    req_user_agent = default_user_agent, req_timeout = 60\<rparr>]\<rparr>) \<and>
   download_pdf (\<lambda>hist rq. Response 200 ''other'') ''http://b.test/y/doc.pdf?v=1'' ''out'' None
     \<lparr>files = [''out/doc.pdf?v=1.pdf'' \<mapsto> ''%PDF''], dirs = {''out''},
      requests = [\<lparr>req_url = ''http://a.test/x/doc.pdf?v=1'',
                   req_user_agent = default_user_agent, req_timeout = 60\<rparr>]\<rparr>
   = (Inr ''out/doc.pdf?v=1.pdf'',
      \<lparr>files = [''out/doc.pdf?v=1.pdf'' \<mapsto> ''%PDF''], dirs = {''out''},
       requests = [\<lparr>req_url = ''http://a.test/x/doc.pdf?v=1'',
                    req_user_agent = default_user_agent, req_timeout = 60\<rparr>]\<rparr>)"
proof -
  have names: "pdf_name ''http://b.test/y/doc.pdf?v=1'' = pdf_name ''http://a.test/x/doc.pdf?v=1''"
    by (simp add: pdf_name_def str_defs)
  have first: "download_pdf (\<lambda>hist rq. Response 200 ''%PDF'') ''http://a.test/x/doc.pdf?v=1'' ''out'' None
     \<lparr>files = Map.empty, dirs = {}, requests = []\<rparr>
   = (Inr ''out/doc.pdf?v=1.pdf'',
      \<lparr>files = [''out/doc.pdf?v=1.pdf'' \<mapsto> ''%PDF''], dirs = {''out''},
       requests = [\<lparr>req_url = ''http://a.test/x/doc.pdf?v=1'',
                    req_user_agent = default_user_agent, req_timeout = 60\<rparr>]\<rparr>)"
    by (simp add: download_pdf_def mkdir_parents_def ancestors_def pdf_name_def str_defs
        join_path_def dir_prefix_def exists_path_def requests_get_def Let_def)
  note second = download_pdf_same_name
    [OF names first, of "\<lambda>hist rq. Response 200 ''other''" None, THEN conjunct1]
  from names first second show ?thesis by (intro conjI)
qed

subsection \<open>Listing extractor\<close>


lemmas tree_defs = find_all_def find_first_def descendants_def is_tag_def get_attr_def
  text_of_def get_text_strip_def find_pdf_link_def pdf_href_re_def strip_text_def
lemmas date_defs = match_date_at_def remove_commas_def strptime_BdY_def strftime_Ymd_def
  year_text_def month_number_def month_names_def valid_day_text_def int_of_digits_def
  digit_of_def is_digit_def digit_char_def zfill_def days_in_month_def is_leap_def
  is_alpha_def is_space_def dec_unfold
lemmas spec_defs = row_date_def cell_href_def link_entries_def row_entries_def date_raises_def
  data_rows_def listing_of_def
lemmas fixture_defs = td_text_def td_link_def tr_def header_row_def listing_page_def
  row_2017_def row_2019_def row_2020_def row_sept_def row_nbsp_def ok_server_def empty_world_def
  listing_request_def join_relative_def

lemmas rows_loop_Cons = rows_loop.simps(2)

declare rows_loop.simps(2) [simp del]

lemma strptime_BdY_error: "strptime_BdY pf s = Inl e \<Longrightarrow> e = ValueError"
  by (simp add: strptime_BdY_def Let_def split: option.splits if_splits)

lemma find_pdf_link_href:
  assumes "find_pdf_link td = Some link"
  obtains h where "get_attr link ''href'' = Some h" "pdf_href_re h" "h \<noteq> []"
proof -
  from assms have "case get_attr link ''href'' of None \<Rightarrow> False | Some h \<Rightarrow> pdf_href_re h"
    by (auto simp: find_pdf_link_def find_Some_iff)
  then obtain h where h: "get_attr link ''href'' = Some h" "pdf_href_re h"
    by (auto split: option.splits)
  from h(2) have "h \<noteq> []"
    by (auto simp: pdf_href_re_def endswith_def lower_def)
  with h show ?thesis by (rule that)
qed

text \<open>One turn of the loop is the row's entries, or the error of its date.\<close>

lemma rows_loop_step:
  "rows_loop pf urljoin base cfg (row # rows) out =
     (if date_raises pf row then Inl ValueError
      else rows_loop pf urljoin base cfg rows
             (out @ row_entries pf urljoin base (since_year cfg)
                      (if lower (doc_type cfg) = ''minutes'' then 2 else 1) row))"
proof -
  let ?cols = "find_all ''td'' row"
  let ?m = "re_search_date pf (get_text_strip (?cols ! 0))"
  consider (short) "length ?cols < 3"
    | (nodate) "\<not> length ?cols < 3" "?m = None"
    | (bad) m e where "\<not> length ?cols < 3" "?m = Some m" "strptime_BdY pf (remove_commas m) = Inl e"
    | (good) m dt where "\<not> length ?cols < 3" "?m = Some m"
        "strptime_BdY pf (remove_commas m) = Inr dt"
  proof (cases "length ?cols < 3")
    case True
    then show ?thesis by (rule short)
  next
    case long: False
    show ?thesis
    proof (cases ?m)
      case None
      with long show ?thesis by (rule nodate)
    next
      case (Some m)
      show ?thesis
      proof (cases "strptime_BdY pf (remove_commas m)")
        case (Inl e)
        with long Some show ?thesis by (rule bad)
      next
        case (Inr dt)
        with long Some show ?thesis by (rule good)
      qed
    qed
  qed
  then show ?thesis
  proof cases
    case short
    then show ?thesis
      by (simp add: rows_loop_Cons Let_def date_raises_def row_date_def row_entries_def)
  next
    case nodate
    then show ?thesis
      by (simp add: rows_loop_Cons Let_def date_raises_def row_date_def row_entries_def)
  next
    case bad
    from bad(3) have "e = ValueError" by (rule strptime_BdY_error)
    with bad show ?thesis
      by (simp add: rows_loop_Cons Let_def date_raises_def row_date_def)
  next
    case good
    then show ?thesis
      by (simp add: rows_loop_Cons Let_def date_raises_def row_date_def row_entries_def
          link_entries_def cell_href_def split: option.splits)
  qed
qed

lemma rows_loop_closed:
  "rows_loop pf urljoin base cfg rows out =
     (if list_ex (date_raises pf) rows then Inl ValueError
      else Inr (out @ concat (map (row_entries pf urljoin base (since_year cfg)
                  (if lower (doc_type cfg) = ''minutes'' then 2 else 1)) rows)))"
proof (induction rows arbitrary: out)
  case Nil
  show ?case by simp
next
  case (Cons row rows)
  show ?case
    by (simp add: rows_loop_step Cons.IH)
qed

lemma fetch_listing_closed:
  "fetch_listing pf srv parser urljoin base cfg w =
     (case requests_get srv (listing_request base (user_agent cfg)) w of
        (Inl e, w') \<Rightarrow> (Inl e, w')
      | (Inr body, w') \<Rightarrow>
          (listing_of pf urljoin base (since_year cfg)
             (if lower (doc_type cfg) = ''minutes'' then 2 else 1) (data_rows (parser body)), w'))"
  by (simp add: fetch_listing_def listing_request_def listing_of_def data_rows_def
      rows_loop_closed Let_def split: prod.splits sum.splits option.splits)


lemma row_entries_year:
  assumes "e \<in> set (row_entries pf urljoin base since idx row)"
  shows "\<exists>dt. fst e = strftime_Ymd pf dt \<and> since \<le> int (year dt)"
  using assms
  by (auto simp: row_entries_def link_entries_def split: option.splits sum.splits if_splits)

lemma listing_of_entries:
  assumes "listing_of pf urljoin base since idx rows = Inr res"
  shows "\<forall>e \<in> set res. \<exists>dt. fst e = strftime_Ymd pf dt \<and> since \<le> int (year dt)"
proof
  fix e assume "e \<in> set res"
  with assms obtain row where "e \<in> set (row_entries pf urljoin base since idx row)"
    by (auto simp: listing_of_def split: if_splits)
  then show "\<exists>dt. fst e = strftime_Ymd pf dt \<and> since \<le> int (year dt)"
    by (rule row_entries_year)
qed

lemma fetch_listing_entries:
  assumes "fetch_listing pf srv parser urljoin base cfg w = (Inr res, w')"
  shows "\<forall>e \<in> set res. \<exists>dt. fst e = strftime_Ymd pf dt \<and> since_year cfg \<le> int (year dt)"
proof -
  from assms obtain body where
    "listing_of pf urljoin base (since_year cfg)
       (if lower (doc_type cfg) = ''minutes'' then 2 else 1) (data_rows (parser body)) = Inr res"
    by (auto simp: fetch_listing_closed split: prod.splits sum.splits)
  then show ?thesis by (rule listing_of_entries)
qed

lemma fetch_listing_cong_doc_type:
  assumes "(lower d = ''minutes'') = (lower (doc_type cfg) = ''minutes'')"
  shows "fetch_listing pf srv parser urljoin base (cfg\<lparr>doc_type := d\<rparr>) w =
         fetch_listing pf srv parser urljoin base cfg w"
  using assms by (simp add: fetch_listing_closed split: prod.splits sum.splits)

lemma listing_of_floor:
  "listing_of pf urljoin base since idx rows =
     (if list_ex (date_raises pf) rows then Inl ValueError
      else Inr (concat (map (\<lambda>row. case row_date pf row of
                                      Some (Inr dt) \<Rightarrow>
                                        if since \<le> int (year dt)
                                        then link_entries pf urljoin base (find_all ''td'' row ! idx) dt
                                        else []
                                    | _ \<Rightarrow> []) rows)))"
proof -
  have "row_entries pf urljoin base since idx =
        (\<lambda>row. case row_date pf row of
           Some (Inr dt) \<Rightarrow>
             if since \<le> int (year dt)
             then link_entries pf urljoin base (find_all ''td'' row ! idx) dt else []
         | _ \<Rightarrow> [])"
    by (rule ext) (simp add: row_entries_def not_less split: option.splits sum.splits)
  then show ?thesis
    by (simp only: listing_of_def)
qed

lemma example_sept:
  "fetch_listing pf ok_server (\<lambda>body. listing_page [row_2019, row_sept, row_2020]) urljoin
     ''https://sfbos.test/meetings''
     \<lparr>since_year = 2018, doc_type = ''minutes'', user_agent = default_user_agent\<rparr> empty_world
   = (Inl ValueError,
      empty_world\<lparr>requests := [listing_request ''https://sfbos.test/meetings'' default_user_agent]\<rparr>)"
  by (simp add: fetch_listing_def requests_get_def fixture_defs tree_defs date_defs str_defs
      rows_loop_Cons Let_def)

lemma example_2019_2020:
  "fetch_listing pf ok_server (\<lambda>body. listing_page [row_2019, row_2020]) urljoin
     ''https://sfbos.test/meetings''
     \<lparr>since_year = 2018, doc_type = ''minutes'', user_agent = default_user_agent\<rparr> empty_world
   = (Inr [(''2019-06-15'', urljoin ''https://sfbos.test/meetings'' ''m19.pdf''),
           (''2020-01-07'', urljoin ''https://sfbos.test/meetings'' ''minutes.pdf'')],
      empty_world\<lparr>requests := [listing_request ''https://sfbos.test/meetings'' default_user_agent]\<rparr>)"
  by (simp add: fetch_listing_def requests_get_def fixture_defs tree_defs date_defs str_defs
      rows_loop_Cons Let_def)

lemma example_2020:
  "fetch_listing pf ok_server (\<lambda>body. listing_page [row_2020]) urljoin base
     \<lparr>since_year = 2018, doc_type = ''minutes'', user_agent = ua\<rparr> empty_world
   = (Inr [(''2020-01-07'', urljoin base ''minutes.pdf'')],
      empty_world\<lparr>requests := [listing_request base ua]\<rparr>)"
  "fetch_listing pf ok_server (\<lambda>body. listing_page [row_2020]) urljoin base
     \<lparr>since_year = 2018, doc_type = ''agenda'', user_agent = ua\<rparr> empty_world
   = (Inr [(''2020-01-07'', urljoin base ''agenda.pdf'')],
      empty_world\<lparr>requests := [listing_request base ua]\<rparr>)"
  by (simp_all add: fetch_listing_def requests_get_def fixture_defs tree_defs date_defs str_defs
      rows_loop_Cons Let_def)

lemma example_2017_2019:
  "fetch_listing pf ok_server (\<lambda>body. listing_page [row_2017, row_2019]) urljoin base
     \<lparr>since_year = 2018, doc_type = ''minutes'', user_agent = ua\<rparr> empty_world
   = (Inr [(''2019-06-15'', urljoin base ''m19.pdf'')],
      empty_world\<lparr>requests := [listing_request base ua]\<rparr>)"
  by (simp add: fetch_listing_def requests_get_def fixture_defs tree_defs date_defs str_defs
      rows_loop_Cons Let_def)

text \<open>A date written with no-break spaces is a date: the row is listed.\<close>

lemma example_nbsp:
  "fetch_listing pf ok_server (\<lambda>body. listing_page [row_nbsp]) urljoin base
     \<lparr>since_year = 2018, doc_type = ''minutes'', user_agent = ua\<rparr> empty_world
   = (Inr [(''2019-06-15'', urljoin base ''m19.pdf'')],
      empty_world\<lparr>requests := [listing_request base ua]\<rparr>)"
  by (simp add: fetch_listing_def requests_get_def fixture_defs tree_defs date_defs str_defs
      rows_loop_Cons Let_def cont_bits_def)

lemma row_2020_facts:
  "row_date pf row_2020 = Some (Inr \<lparr>year = 2020, month = 1, day = 7\<rparr>)"
  "cell_href (find_all ''td'' row_2020 ! 1) = Some ''agenda.pdf''"
  "cell_href (find_all ''td'' row_2020 ! 2) = Some ''minutes.pdf''"
  "strftime_Ymd pf \<lparr>year = 2020, month = 1, day = 7\<rparr> = ''2020-01-07''"
  by (simp_all add: row_date_def cell_href_def fixture_defs tree_defs date_defs str_defs)

lemma row_2017_facts:
  "row_date pf row_2017 = Some (Inr \<lparr>year = 2017, month = 3, day = 1\<rparr>)"
  by (simp_all add: row_date_def cell_href_def fixture_defs tree_defs date_defs str_defs)


lemma row_short:
  assumes "length (find_all ''td'' row) < 3"
  shows "\<not> date_raises pf row \<and> row_entries pf urljoin base since idx row = []"
  using assms by (simp add: date_raises_def row_entries_def row_date_def)

lemma row_no_date:
  assumes "re_search_date pf (get_text_strip (find_all ''td'' row ! 0)) = None"
  shows "\<not> date_raises pf row \<and> row_entries pf urljoin base since idx row = []"
  using assms by (simp add: date_raises_def row_entries_def row_date_def Let_def)

lemma row_no_link:
  assumes "find_pdf_link (find_all ''td'' row ! idx) = None"
  shows "row_entries pf urljoin base since idx row = []"
  using assms
  by (simp add: row_entries_def link_entries_def cell_href_def split: option.splits sum.splits)

lemma row_entries_dated:
  assumes "row_date pf row = Some (Inr dt)"
  shows "row_entries pf urljoin base since idx row =
           (if int (year dt) < since then []
            else case cell_href (find_all ''td'' row ! idx) of
                   None \<Rightarrow> []
                 | Some h \<Rightarrow> [(strftime_Ymd pf dt, urljoin base h)])"
  using assms by (simp add: row_entries_def link_entries_def)

lemma fetch_listing_floor:
  "fetch_listing pf srv parser urljoin base cfg w =
     (case requests_get srv (listing_request base (user_agent cfg)) w of
        (Inl e, w') \<Rightarrow> (Inl e, w')
      | (Inr body, w') \<Rightarrow>
          (if list_ex (date_raises pf) (data_rows (parser body)) then Inl ValueError
           else Inr (concat (map (\<lambda>row. case row_date pf row of
                                           Some (Inr dt) \<Rightarrow>
                                             if since_year cfg \<le> int (year dt)
                                             then link_entries pf urljoin base
                                                    (find_all ''td'' row !
                                                       (if lower (doc_type cfg) = ''minutes''
                                                        then 2 else 1)) dt
                                             else []
                                         | _ \<Rightarrow> [])
                               (data_rows (parser body)))), w'))"
  by (simp only: fetch_listing_closed listing_of_floor)

text \<open>
  C2 (evaluation). The second data row of this table has three cells and the first
  cell reads \<^verbatim>\<open>Sept 5, 2020\<close>. The text matches the date pattern, so the row is not
  skipped; \<^verbatim>\<open>strptime\<close> then rejects \<^verbatim>\<open>Sept\<close> as a month name, and the
  \<^verbatim>\<open>ValueError\<close> ends the whole call: the entries of the rows before and after are
  lost. Without that row the same call returns both entries.
\<close>

theorem fetch_listing_invalid_date_raises:
  "fetch_listing pf ok_server (\<lambda>body. listing_page [row_2019, row_sept, row_2020]) urljoin
     ''https://sfbos.test/meetings''
     \<lparr>since_year = 2018, doc_type = ''minutes'', user_agent = default_user_agent\<rparr> empty_world
   = (Inl ValueError,
      empty_world\<lparr>requests := [listing_request ''https://sfbos.test/meetings'' default_user_agent]\<rparr>)
   \<and>
   fetch_listing pf ok_server (\<lambda>body. listing_page [row_2019, row_2020]) urljoin
     ''https://sfbos.test/meetings''
     \<lparr>since_year = 2018, doc_type = ''minutes'', user_agent = default_user_agent\<rparr> empty_world
   = (Inr [(''2019-06-15'', urljoin ''https://sfbos.test/meetings'' ''m19.pdf''),
           (''2020-01-07'', urljoin ''https://sfbos.test/meetings'' ''minutes.pdf'')],
      empty_world\<lparr>requests := [listing_request ''https://sfbos.test/meetings'' default_user_agent]\<rparr>)"
  using example_sept [of pf urljoin] example_2019_2020 [of pf urljoin]
  by (rule conjI)

text \<open>
  C4. \<open>fetch_listing\<close> returns the listing of all data rows of the first table, every
  row read at the cell of index 2 when \<open>doc_type\<close> is minutes (compared in lower case)
  and at the cell of index 1 otherwise. A row with at least three cells and a valid
  date, which is a row whose \<open>row_date\<close> is a date, has no entry when the year is
  before the floor; otherwise its entry is the date with the joined URL of the first PDF
  link of the cell of that index, and it has no entry when that cell has no PDF link.
  On the row whose second cell links \<^verbatim>\<open>agenda.pdf\<close> and whose third cell links
  \<^verbatim>\<open>minutes.pdf\<close>, \<open>doc_type = minutes\<close> gives the URL joined from \<^verbatim>\<open>minutes.pdf\<close>
  and \<open>doc_type = agenda\<close> the one joined from \<^verbatim>\<open>agenda.pdf\<close>.
\<close>

theorem fetch_listing_column_by_doc_type:
  "fetch_listing pf srv parser urljoin base cfg w =
     (case requests_get srv (listing_request base (user_agent cfg)) w of
        (Inl e, w') \<Rightarrow> (Inl e, w')
      | (Inr body, w') \<Rightarrow>
          (listing_of pf urljoin base (since_year cfg)
             (if lower (doc_type cfg) = ''minutes'' then 2 else 1) (data_rows (parser body)),
           w')) \<and>
   (row_date pf row = Some (Inr dt) \<longrightarrow>
      row_entries pf urljoin base since idx row =
        (if int (year dt) < since then []
         else case cell_href (find_all ''td'' row ! idx) of
                None \<Rightarrow> []
              | Some h \<Rightarrow> [(strftime_Ymd pf dt, urljoin base h)])) \<and>
   fetch_listing pf ok_server (\<lambda>body. listing_page [row_2020]) urljoin base
       \<lparr>since_year = 2018, doc_type = ''minutes'', user_agent = ua\<rparr> empty_world
     = (Inr [(''2020-01-07'', urljoin base ''minutes.pdf'')],
        empty_world\<lparr>requests := [listing_request base ua]\<rparr>) \<and>
   fetch_listing pf ok_server (\<lambda>body. listing_page [row_2020]) urljoin base
       \<lparr>since_year = 2018, doc_type = ''agenda'', user_agent = ua\<rparr> empty_world
     = (Inr [(''2020-01-07'', urljoin base ''agenda.pdf'')],
        empty_world\<lparr>requests := [listing_request base ua]\<rparr>)"
  using fetch_listing_closed [of pf srv parser urljoin base cfg w]
    row_entries_dated [of pf row dt urljoin base since idx]
    example_2020 [of pf urljoin base ua]
  by blast

theorem fetch_listing_column_by_doc_type_witness:
  "row_date example_platform row_2020 = Some (Inr \<lparr>year = 2020, month = 1, day = 7\<rparr>) \<and>
   row_entries example_platform join_relative ''https://sfbos.test/meetings/lut'' 2018 2 row_2020
     = [(''2020-01-07'', ''https://sfbos.test/meetings/minutes.pdf'')] \<and>
   row_entries example_platform join_relative ''https://sfbos.test/meetings/lut'' 2018 1 row_2020
     = [(''2020-01-07'', ''https://sfbos.test/meetings/agenda.pdf'')]"
  using fetch_listing_column_by_doc_type
      [where pf = example_platform and row = row_2020
         and dt = "\<lparr>year = 2020, month = 1, day = 7\<rparr>"
         and urljoin = join_relative and base = "''https://sfbos.test/meetings/lut''"
         and since = 2018 and idx = 2, THEN conjunct2, THEN conjunct1]
    fetch_listing_column_by_doc_type
      [where pf = example_platform and row = row_2020
         and dt = "\<lparr>year = 2020, month = 1, day = 7\<rparr>"
         and urljoin = join_relative and base = "''https://sfbos.test/meetings/lut''"
         and since = 2018 and idx = 1, THEN conjunct2, THEN conjunct1]
    row_2020_facts
  by (simp add: join_relative_def)

text \<open>
  C7. \<open>fetch_listing\<close> returns, for all data rows of the first table in order: nothing
  for a row whose parsed date is before the year floor, and the entry of the selected
  cell for a row whose parsed date is at or after the floor (the date with the joined
  URL of the PDF link of that cell, when it has one). Every entry that \<open>fetch_listing\<close>
  returns carries a date whose year is at or after the floor. On the table with the rows
  of 2017-03-01 and 2019-06-15 and the floor 2018, the result is the single entry of
  2019-06-15.
\<close>

theorem fetch_listing_year_floor:
  "fetch_listing pf srv parser urljoin base cfg w =
     (case requests_get srv (listing_request base (user_agent cfg)) w of
        (Inl e, w') \<Rightarrow> (Inl e, w')
      | (Inr body, w') \<Rightarrow>
          (if list_ex (date_raises pf) (data_rows (parser body)) then Inl ValueError
           else Inr (concat (map (\<lambda>row. case row_date pf row of
                                           Some (Inr dt) \<Rightarrow>
                                             if since_year cfg \<le> int (year dt)
                                             then link_entries pf urljoin base
                                                    (find_all ''td'' row !
                                                       (if lower (doc_type cfg) = ''minutes''
                                                        then 2 else 1)) dt
                                             else []
                                         | _ \<Rightarrow> [])
                               (data_rows (parser body)))), w')) \<and>
   (fetch_listing pf srv parser urljoin base cfg w = (Inr res, w1) \<longrightarrow>
      (\<forall>e \<in> set res. \<exists>dt. fst e = strftime_Ymd pf dt \<and> since_year cfg \<le> int (year dt))) \<and>
   fetch_listing pf ok_server (\<lambda>body. listing_page [row_2017, row_2019]) urljoin base
       \<lparr>since_year = 2018, doc_type = ''minutes'', user_agent = ua\<rparr> empty_world
     = (Inr [(''2019-06-15'', urljoin base ''m19.pdf'')],
        empty_world\<lparr>requests := [listing_request base ua]\<rparr>)"
  using fetch_listing_floor [of pf srv parser urljoin base cfg w]
    fetch_listing_entries [of pf srv parser urljoin base cfg w res w1]
    example_2017_2019 [of pf urljoin base ua]
  by blast

theorem fetch_listing_year_floor_witness:
  "fetch_listing example_platform ok_server (\<lambda>body. listing_page [row_2017, row_2019])
       join_relative ''https://sfbos.test/meetings/lut''
       \<lparr>since_year = 2018, doc_type = ''minutes'', user_agent = default_user_agent\<rparr> empty_world
     = (Inr [(''2019-06-15'', ''https://sfbos.test/meetings/m19.pdf'')],
        empty_world\<lparr>requests :=
          [listing_request ''https://sfbos.test/meetings/lut'' default_user_agent]\<rparr>) \<and>
   (\<exists>dt. ''2019-06-15'' = strftime_Ymd example_platform dt \<and> 2018 \<le> int (year dt))"
proof -
  let ?cfg = "\<lparr>since_year = 2018, doc_type = ''minutes'', user_agent = default_user_agent\<rparr>"
  have run: "fetch_listing example_platform ok_server (\<lambda>body. listing_page [row_2017, row_2019])
       join_relative ''https://sfbos.test/meetings/lut'' ?cfg empty_world
     = (Inr [(''2019-06-15'', ''https://sfbos.test/meetings/m19.pdf'')],
        empty_world\<lparr>requests :=
          [listing_request ''https://sfbos.test/meetings/lut'' default_user_agent]\<rparr>)"
    by (simp add: example_2017_2019 join_relative_def)
  from fetch_listing_year_floor
      [where pf = example_platform and srv = ok_server
         and parser = "\<lambda>body. listing_page [row_2017, row_2019]"
         and urljoin = join_relative and base = "''https://sfbos.test/meetings/lut''"
         and cfg = ?cfg and w = empty_world, THEN conjunct2, THEN conjunct1, rule_format, OF run]
  have "\<exists>dt. ''2019-06-15'' = strftime_Ymd example_platform dt \<and> 2018 \<le> int (year dt)"
    by simp
  with run show ?thesis by (rule conjI)
qed

text \<open>
  C9. \<open>fetch_listing\<close> looks at \<open>doc_type\<close> only to compare its lower-case form with
  \<^verbatim>\<open>minutes\<close>. For every value whose lower-case form is something else, recognised or
  not, the whole call does what it does for \<^verbatim>\<open>agenda\<close> (same result or same error,
  same requests): it returns the listing of all data rows read at the cell of index 1,
  and it fails only when the request fails or a date does not parse. Every value whose
  lower-case form is \<^verbatim>\<open>minutes\<close>, such as \<^verbatim>\<open>MINUTES\<close>, does what \<^verbatim>\<open>minutes\<close> does.
\<close>

theorem fetch_listing_doc_type_unvalidated:
  assumes "lower (doc_type cfg) \<noteq> ''minutes''"
  shows "fetch_listing pf srv parser urljoin base cfg w =
         fetch_listing pf srv parser urljoin base (cfg\<lparr>doc_type := ''agenda''\<rparr>) w \<and>
         fetch_listing pf srv parser urljoin base cfg w =
           (case requests_get srv (listing_request base (user_agent cfg)) w of
              (Inl e, w') \<Rightarrow> (Inl e, w')
            | (Inr body, w') \<Rightarrow>
                (listing_of pf urljoin base (since_year cfg) 1 (data_rows (parser body)), w')) \<and>
         (lower d = ''minutes'' \<longrightarrow>
            fetch_listing pf srv parser urljoin base (cfg\<lparr>doc_type := d\<rparr>) w =
            fetch_listing pf srv parser urljoin base (cfg\<lparr>doc_type := ''minutes''\<rparr>) w) \<and>
         lower ''MINUTES'' = ''minutes'' \<and>
         fetch_listing pf srv parser urljoin base (cfg\<lparr>doc_type := ''MINUTES''\<rparr>) w =
         fetch_listing pf srv parser urljoin base (cfg\<lparr>doc_type := ''minutes''\<rparr>) w"
proof -
  have agenda: "lower ''agenda'' \<noteq> ''minutes''" and upper: "lower ''MINUTES'' = ''minutes''"
    and plain: "lower ''minutes'' = ''minutes''"
    by (simp_all add: str_defs)
  have same: "fetch_listing pf srv parser urljoin base (cfg\<lparr>doc_type := x\<rparr>) w =
        fetch_listing pf srv parser urljoin base (cfg\<lparr>doc_type := ''minutes''\<rparr>) w"
    if "lower x = ''minutes''" for x
    using fetch_listing_cong_doc_type [of x "cfg\<lparr>doc_type := ''minutes''\<rparr>"] that plain
    by simp
  have "fetch_listing pf srv parser urljoin base (cfg\<lparr>doc_type := ''agenda''\<rparr>) w =
        fetch_listing pf srv parser urljoin base cfg w"
    using assms agenda by (intro fetch_listing_cong_doc_type) simp
  moreover have "fetch_listing pf srv parser urljoin base cfg w =
           (case requests_get srv (listing_request base (user_agent cfg)) w of
              (Inl e, w') \<Rightarrow> (Inl e, w')
            | (Inr body, w') \<Rightarrow>
                (listing_of pf urljoin base (since_year cfg) 1 (data_rows (parser body)), w'))"
    using assms by (simp add: fetch_listing_closed)
  ultimately show ?thesis
    using same [of d] same [OF upper] upper by simp
qed

theorem fetch_listing_doc_type_unvalidated_witness:
  "lower ''video'' \<noteq> ''minutes'' \<and>
   fetch_listing example_platform ok_server (\<lambda>body. listing_page [row_2020]) join_relative
       ''https://sfbos.test/meetings/lut''
       \<lparr>since_year = 2018, doc_type = ''video'', user_agent = default_user_agent\<rparr> empty_world
     = (Inr [(''2020-01-07'', ''https://sfbos.test/meetings/agenda.pdf'')],
        empty_world\<lparr>requests :=
          [listing_request ''https://sfbos.test/meetings/lut'' default_user_agent]\<rparr>) \<and>
   lower ''Minutes'' = ''minutes'' \<and>
   fetch_listing example_platform ok_server (\<lambda>body. listing_page [row_2020]) join_relative
       ''https://sfbos.test/meetings/lut''
       \<lparr>since_year = 2018, doc_type = ''Minutes'', user_agent = default_user_agent\<rparr> empty_world
     = (Inr [(''2020-01-07'', ''https://sfbos.test/meetings/minutes.pdf'')],
        empty_world\<lparr>requests :=
          [listing_request ''https://sfbos.test/meetings/lut'' default_user_agent]\<rparr>)"
proof -
  have video: "lower (doc_type \<lparr>since_year = 2018, doc_type = ''video'',
      user_agent = default_user_agent\<rparr>) \<noteq> ''minutes''"
    and mixed: "lower ''Minutes'' = ''minutes''"
    by (simp_all add: str_defs)
  note eq = fetch_listing_doc_type_unvalidated [OF video, THEN conjunct1]
  note eq' = fetch_listing_doc_type_unvalidated
    [OF video, THEN conjunct2, THEN conjunct2, THEN conjunct1, rule_format, OF mixed]
  show ?thesis
    using video mixed eq' [of example_platform ok_server "\<lambda>body. listing_page [row_2020]"
        join_relative "''https://sfbos.test/meetings/lut''" empty_world]
    by (simp add: eq example_2020 join_relative_def)
qed

subsection \<open>Metadata builder\<close>

lemma sha256_file_Inr:
  assumes "files w p = Some content"
  shows "sha256_file H w p = Inr (sha256_hex_oneshot H content)"
proof -
  have "read_chunks content 0 hash_new = hash_update hash_new content"
    using read_chunks_acc [of 0 content hash_new]
    by (simp add: hash_update_def)
  with assms show ?thesis
    by (simp add: sha256_file_def open_rb_def sha256_hex_oneshot_def)
qed

lemma introspect_cases:
  "introspect lib p = (None, None) \<or>
   (\<exists>pdfplumber_open pdf ps. lib = Some pdfplumber_open \<and> pdfplumber_open p = Inr pdf \<and>
      pages pdf = Inr ps \<and> fst (introspect lib p) = Some (int (length ps)))"
  by (auto simp: introspect_def Let_def split: option.splits sum.splits list.splits)

lemma introspect_early_failure:
  assumes "lib = None \<or> (\<exists>f. lib = Some f \<and>
             (f p = Inl e \<or> (\<exists>pdf. f p = Inr pdf \<and> pages pdf = Inl e)))"
  shows "introspect lib p = (None, None)"
  using assms by (auto simp: introspect_def)

lemma introspect_late_failure:
  assumes "lib = Some f" "f p = Inr pdf" "pages pdf = Inr ps"
    and "ps = [] \<or> extract_text (hd ps) = Inl e"
  shows "introspect lib p = (Some (int (length ps)), None)"
  using assms by (auto simp: introspect_def Let_def split: list.splits)

lemma extract_metadata_returns:
  assumes "files w p = Some content" and "dtype = ''minutes'' \<or> dtype = ''agenda''"
  shows "\<exists>r. extract_metadata H lib now w p url comm dtype = Inr r \<and>
             sha256 r = sha256_hex_oneshot H content \<and>
             file_size r = Some (int (length content)) \<and>
             page_count r = fst (introspect lib p) \<and>
             ExtractedPayload.title (extracted r) = snd (introspect lib p) \<and>
             items (extracted r) = [] \<and> meeting_date r = None"
  using assms sha256_file_Inr [OF assms(1), of H]
  by (cases "introspect lib p")
     (auto simp: extract_metadata_def stat_size_def DocRecord_new_def validate_doc_type_def)



text \<open>
  C6 (counterexample). The library opens the file and counts three pages; reading the
  text of the first page raises. The exception is dropped, the record is returned, its
  title is unset, but its \<open>page_count\<close> is 3, not unset.
\<close>

theorem extract_metadata_page_count_counterexample:
  "extract_metadata (\<lambda>b. b) failing_text_library utc_2024 pdf_world ''in/a.pdf''
     ''file://in/a.pdf'' (Some ''Land Use and Transportation'') ''minutes''
   = Inr \<lparr>source_url = ''file://in/a.pdf'', doc_type = Minutes,
          committee = Some ''Land Use and Transportation'', meeting_date = None,
          sha256 = ''616263'', mime = ''application/pdf'', file_size = Some 3,
          page_count = Some 3, extracted = \<lparr>title = None, items = []\<rparr>,
          extracted_at = utc_2024, extractor = ExtractorMeta_default\<rparr>"
  by (simp add: extract_metadata_def sha256_file_Inr stat_size_def pdf_world_def
      failing_text_library_def introspect_def pages_def extract_text_def DocRecord_new_def
      validate_doc_type_def sha256_hex_oneshot_def hexdigest_def hash_update_def hash_new_def
      hex_byte_def hex_digit_def)

text \<open>
  C6 (amended). For every regular file and a document type \<^verbatim>\<open>minutes\<close> or
  \<^verbatim>\<open>agenda\<close>, \<open>extract_metadata\<close> returns a record, whatever the PDF library does; its
  \<open>sha256\<close> is the digest of the content and its \<open>file_size\<close> the length. When the
  library is missing, or opening the file or listing its pages raises, \<open>page_count\<close> and
  the title are both unset. When the pages were listed and the failure comes after (no
  first page, or its text extraction raises), the title is unset and \<open>page_count\<close> is
  the number of pages.
\<close>

theorem extract_metadata_degrades:
  assumes "files w p = Some content" and "dtype = ''minutes'' \<or> dtype = ''agenda''"
  shows "\<exists>r. extract_metadata H lib now w p url comm dtype = Inr r \<and>
           sha256 r = sha256_hex_oneshot H content \<and>
           file_size r = Some (int (length content)) \<and>
           ((lib = None \<or> (\<exists>f e. lib = Some f \<and>
                (f p = Inl e \<or> (\<exists>pdf. f p = Inr pdf \<and> pages pdf = Inl e)))) \<longrightarrow>
              page_count r = None \<and> ExtractedPayload.title (extracted r) = None) \<and>
           (\<forall>f pdf ps. lib = Some f \<and> f p = Inr pdf \<and> pages pdf = Inr ps \<and>
                (ps = [] \<or> (\<exists>e. extract_text (hd ps) = Inl e)) \<longrightarrow>
              page_count r = Some (int (length ps)) \<and>
              ExtractedPayload.title (extracted r) = None)"
proof -
  from extract_metadata_returns [OF assms, of H lib now url comm]
  obtain r where r: "extract_metadata H lib now w p url comm dtype = Inr r"
    "sha256 r = sha256_hex_oneshot H content" "file_size r = Some (int (length content))"
    "page_count r = fst (introspect lib p)"
    "ExtractedPayload.title (extracted r) = snd (introspect lib p)"
    by blast
  have early: "page_count r = None \<and> ExtractedPayload.title (extracted r) = None"
    if "lib = None \<or> (\<exists>f e. lib = Some f \<and>
          (f p = Inl e \<or> (\<exists>pdf. f p = Inr pdf \<and> pages pdf = Inl e)))"
  proof -
    from that have "introspect lib p = (None, None)"
      by (auto simp: introspect_def)
    with r(4,5) show ?thesis by simp
  qed
  have late: "page_count r = Some (int (length ps)) \<and> ExtractedPayload.title (extracted r) = None"
    if "lib = Some f \<and> f p = Inr pdf \<and> pages pdf = Inr ps \<and>
        (ps = [] \<or> (\<exists>e. extract_text (hd ps) = Inl e))" for f pdf ps
  proof -
    from that have "introspect lib p = (Some (int (length ps)), None)"
      by (auto intro: introspect_late_failure)
    with r(4,5) show ?thesis by simp
  qed
  from r(1-3) early late show ?thesis by blast
qed

theorem extract_metadata_degrades_witness:
  "files pdf_world ''in/a.pdf'' = Some ''abc'' \<and>
   extract_metadata (\<lambda>b. b) None utc_2024 pdf_world ''in/a.pdf''
     ''file://in/a.pdf'' (Some ''Land Use and Transportation'') ''minutes''
   = Inr \<lparr>source_url = ''file://in/a.pdf'', doc_type = Minutes,
          committee = Some ''Land Use and Transportation'', meeting_date = None,
          sha256 = ''616263'', mime = ''application/pdf'', file_size = Some 3,
          page_count = None, extracted = \<lparr>title = None, items = []\<rparr>,
          extracted_at = utc_2024, extractor = ExtractorMeta_default\<rparr>"
proof -
  have f: "files pdf_world ''in/a.pdf'' = Some ''abc''"
    by (simp add: pdf_world_def)
  from extract_metadata_degrades [OF f, of "''minutes''" "\<lambda>b. b" None utc_2024
      "''file://in/a.pdf''" "Some ''Land Use and Transportation''"]
  obtain r where r: "extract_metadata (\<lambda>b. b) None utc_2024 pdf_world ''in/a.pdf''
     ''file://in/a.pdf'' (Some ''Land Use and Transportation'') ''minutes'' = Inr r"
    "page_count r = None"
    by auto
  from f r show ?thesis
    by (simp add: extract_metadata_def sha256_file_Inr stat_size_def
      introspect_def DocRecord_new_def
      validate_doc_type_def sha256_hex_oneshot_def hexdigest_def hash_update_def hash_new_def
      hex_byte_def hex_digit_def)
qed

subsection \<open>Serialization\<close>

lemmas json_defs = to_jsonl_line_def model_dump_def dump_payload_def dump_meta_def dump_item_def
  json_opt_def doc_type_str_def quote_def escape_char_def str_int_def isoformat_date_def
  isoformat_datetime_def ExtractorMeta_default_def zfill_def digit_char_def hex_byte_def hex_digit_def
  dec_unfold

lemma digit_char_digit: "digit_char n \<in> set ''0123456789''"
  unfolding digit_char_def by (rule nth_mem) simp

lemma dec_digits: "set (dec n) \<subseteq> set ''0123456789''"
proof (induction n rule: dec.induct)
  case (1 n)
  show ?case
  proof (cases "n < 10")
    case True
    then have "dec n = [digit_char n]" by (subst dec_unfold) simp
    with digit_char_digit [of n] show ?thesis by simp
  next
    case False
    then have "dec n = dec (n div 10) @ [digit_char n]" by (subst dec_unfold) simp
    with "1.IH" [OF False] digit_char_digit [of n] show ?thesis by simp
  qed
qed

lemma newline_not_digit: "CHR 0x0A \<notin> set ''0123456789''"
  by simp

lemma newline_not_hex: "CHR 0x0A \<notin> set ''0123456789abcdef''"
  by simp

lemma dec_no_newline: "CHR 0x0A \<notin> set (dec n)"
  using dec_digits [of n] newline_not_digit by blast

lemma str_int_no_newline: "CHR 0x0A \<notin> set (str_int i)"
  using dec_no_newline by (simp add: str_int_def)

lemma escape_char_no_newline: "CHR 0x0A \<notin> set (escape_char c)"
proof -
  have "CHR 0x0A \<notin> set (hex_byte c)"
    using hex_byte_lower [of c] newline_not_hex by blast
  then show ?thesis
    by (simp add: escape_char_def)
qed

lemma quote_no_newline: "CHR 0x0A \<notin> set (quote s)"
  using escape_char_no_newline by (simp add: quote_def)

lemma join_comma_no_newline:
  "(\<And>x. x \<in> set xs \<Longrightarrow> CHR 0x0A \<notin> set x) \<Longrightarrow> CHR 0x0A \<notin> set (join_comma xs)"
  by (induction xs rule: join_comma.induct) auto

lemma dumps_no_newline: "CHR 0x0A \<notin> set (dumps j)"
proof (induction j)
  case JNull
  show ?case by simp
next
  case (JInt i)
  show ?case by (simp add: str_int_no_newline)
next
  case (JString s)
  show ?case by (simp add: quote_no_newline)
next
  case (JArray xs)
  then have "CHR 0x0A \<notin> set (join_comma (map dumps xs))"
    by (intro join_comma_no_newline) auto
  then show ?case by simp
next
  case (JObject kvs)
  have "CHR 0x0A \<notin> set (join_comma (map (\<lambda>kv. quote (fst kv) @ '':'' @ dumps (snd kv)) kvs))"
  proof (rule join_comma_no_newline)
    fix x assume "x \<in> set (map (\<lambda>kv. quote (fst kv) @ '':'' @ dumps (snd kv)) kvs)"
    then obtain k v where kv: "(k, v) \<in> set kvs" and x: "x = quote k @ '':'' @ dumps v"
      by auto
    from JObject kv have "CHR 0x0A \<notin> set (dumps v)"
      by (auto simp: snds.simps)
    with x show "CHR 0x0A \<notin> set x"
      by (simp add: quote_no_newline)
  qed
  then show ?case by simp
qed

lemma to_jsonl_line_no_newline: "CHR 0x0A \<notin> set (to_jsonl_line r)"
  by (simp add: to_jsonl_line_def dumps_no_newline)


subsection \<open>The extract command\<close>

lemma write_records_None:
  assumes "write_records H lib clock flushed w out site dtype pdfs written count
             = (None, written', count')"
  shows "\<exists>recs. length recs = length pdfs \<and> count' = count + length pdfs \<and>
           written' = written @ concat (map (\<lambda>r. to_jsonl_line r @ [CHR 0x0A]) recs) \<and>
           (\<forall>i < length pdfs.
              extract_metadata H lib (clock (count + i))
                (w\<lparr>files := (files w)(out \<mapsto>
                     flushed (written
                       @ concat (map (\<lambda>r. to_jsonl_line r @ [CHR 0x0A]) (take i recs))))\<rparr>)
                (pdfs ! i) (''file://'' @ pdfs ! i) (Some (committee site)) dtype
              = Inr (recs ! i))"
  using assms
proof (induction pdfs arbitrary: written count)
  case Nil
  then show ?case by simp
next
  case (Cons pdf pdfs)
  let ?line = "\<lambda>r. to_jsonl_line r @ [CHR 0x0A]"
  from Cons.prems obtain r where
    r: "extract_metadata H lib (clock count) (w\<lparr>files := (files w)(out \<mapsto> flushed written)\<rparr>)
          pdf (''file://'' @ pdf) (Some (committee site)) dtype = Inr r"
    and rest: "write_records H lib clock flushed w out site dtype pdfs
          (written @ to_jsonl_line r @ [CHR 0x0A]) (count + 1) = (None, written', count')"
    by (auto split: sum.splits)
  from Cons.IH [OF rest] obtain recs where recs:
    "length recs = length pdfs" "count' = count + 1 + length pdfs"
    "written' = (written @ to_jsonl_line r @ [CHR 0x0A]) @ concat (map ?line recs)"
    "\<forall>i < length pdfs.
        extract_metadata H lib (clock (count + 1 + i))
          (w\<lparr>files := (files w)(out \<mapsto>
               flushed ((written @ to_jsonl_line r @ [CHR 0x0A])
                 @ concat (map ?line (take i recs))))\<rparr>)
          (pdfs ! i) (''file://'' @ pdfs ! i) (Some (committee site)) dtype = Inr (recs ! i)"
    by blast
  have each: "\<forall>i < length (pdf # pdfs).
      extract_metadata H lib (clock (count + i))
        (w\<lparr>files := (files w)(out \<mapsto>
             flushed (written @ concat (map ?line (take i (r # recs)))))\<rparr>)
        ((pdf # pdfs) ! i) (''file://'' @ (pdf # pdfs) ! i) (Some (committee site)) dtype
      = Inr ((r # recs) ! i)"
  proof (intro allI impI)
    fix i assume i: "i < length (pdf # pdfs)"
    show "extract_metadata H lib (clock (count + i))
        (w\<lparr>files := (files w)(out \<mapsto>
             flushed (written @ concat (map ?line (take i (r # recs)))))\<rparr>)
        ((pdf # pdfs) ! i) (''file://'' @ (pdf # pdfs) ! i) (Some (committee site)) dtype
      = Inr ((r # recs) ! i)"
    proof (cases i)
      case 0
      with r show ?thesis by simp
    next
      case (Suc j)
      with i have "j < length pdfs" by simp
      with recs(4) Suc show ?thesis by simp
    qed
  qed
  show ?case
  proof (intro exI [of _ "r # recs"] conjI)
    show "length (r # recs) = length (pdf # pdfs)"
      using recs(1) by simp
    show "count' = count + length (pdf # pdfs)"
      using recs(2) by simp
    show "written' = written @ concat (map ?line (r # recs))"
      using recs(3) by simp
    show "\<forall>i < length (pdf # pdfs).
      extract_metadata H lib (clock (count + i))
        (w\<lparr>files := (files w)(out \<mapsto>
             flushed (written @ concat (map ?line (take i (r # recs)))))\<rparr>)
        ((pdf # pdfs) ! i) (''file://'' @ (pdf # pdfs) ! i) (Some (committee site)) dtype
      = Inr ((r # recs) ! i)"
      by (rule each)
  qed
qed

lemma glob_pdf_entries:
  assumes "finite (dom (files w))" "finite (dirs w)"
  shows "set (glob_pdf w d) = {p \<in> dom (files w) \<union> dirs w. is_pdf_entry d p}"
    and "sorted (glob_pdf w d)" and "distinct (glob_pdf w d)"
proof -
  from assms have "finite {p \<in> dom (files w) \<union> dirs w. is_pdf_entry d p}"
    by simp
  then show "set (glob_pdf w d) = {p \<in> dom (files w) \<union> dirs w. is_pdf_entry d p}"
    by (simp add: glob_pdf_def)
  show "sorted (glob_pdf w d)" and "distinct (glob_pdf w d)"
    by (simp_all add: glob_pdf_def)
qed

lemma glob_pdf_example:
  "glob_pdf (pdf_world\<lparr>files := (files pdf_world)(''out/records.jsonl'' \<mapsto> c)\<rparr>) ''in''
     = [''in/a.pdf'']"
proof -
  have "{p \<in> dom ((files pdf_world)(''out/records.jsonl'' \<mapsto> c)) \<union> dirs pdf_world.
           is_pdf_entry ''in'' p} = {''in/a.pdf''}"
    by (auto simp: pdf_world_def is_pdf_entry_def dir_prefix_def str_defs Let_def)
  then show ?thesis
    by (simp add: glob_pdf_def)
qed

text \<open>The PDFs of the directory \<^verbatim>\<open>.\<close> are named without a directory part.\<close>

lemma glob_pdf_current_dir: "glob_pdf cwd_world ''.'' = [''a.pdf'']"
proof -
  have "{p \<in> dom (files cwd_world) \<union> dirs cwd_world. is_pdf_entry ''.'' p} = {''a.pdf''}"
    by (auto simp: cwd_world_def is_pdf_entry_def dir_prefix_def str_defs Let_def)
  then show ?thesis
    by (simp add: glob_pdf_def)
qed

lemma extract_metadata_example:
  "extract_metadata (\<lambda>b. b) None utc_2024
     (pdf_world\<lparr>files := (files pdf_world)(''out/records.jsonl'' \<mapsto> c)\<rparr>)
     ''in/a.pdf'' ''file://in/a.pdf'' (Some ''Land Use and Transportation'') ''minutes''
   = Inr record_a"
proof -
  have "files (pdf_world\<lparr>files := (files pdf_world)(''out/records.jsonl'' \<mapsto> c)\<rparr>)
          ''in/a.pdf'' = Some ''abc''"
    by (simp add: pdf_world_def)
  then show ?thesis
    by (simp add: extract_metadata_def sha256_file_Inr stat_size_def
      introspect_def DocRecord_new_def record_a_def
      validate_doc_type_def sha256_hex_oneshot_def hexdigest_def hash_update_def hash_new_def
      hex_byte_def hex_digit_def)
qed

lemma cmd_extract_example:
  "cmd_extract (\<lambda>b. b) None (\<lambda>i. utc_2024) no_flush extract_args pdf_world
   = (Inr (0, ''Wrote 1 records to out/records.jsonl''),
      pdf_world\<lparr>files := (files pdf_world)
                  (''out/records.jsonl'' \<mapsto> to_jsonl_line record_a @ [CHR 0x0A])\<rparr>)"
proof -
  have site: "get_site ''sfbos_lut'' = Inr (hd SITES)"
    by (simp add: get_site_def SITES_def)
  have comm: "committee (hd SITES) = ''Land Use and Transportation''"
    and dflt: "default_doc_type (hd SITES) = ''minutes''"
    by (simp_all add: SITES_def)
  have par: "parent ''out/records.jsonl'' = ''out''"
    by (simp add: parent_def)
  have "mkdir_parents pdf_world ''out'' = Inr (pdf_world\<lparr>dirs := {''in'', ''out''}\<rparr>)"
    by (auto simp: mkdir_parents_def ancestors_def pdf_world_def)
  moreover have "pdf_world\<lparr>dirs := {''in'', ''out''}\<rparr> = pdf_world"
    by (simp add: pdf_world_def)
  ultimately have mk: "mkdir_parents pdf_world ''out'' = Inr pdf_world"
    by simp
  have "''out/records.jsonl'' \<notin> dirs pdf_world"
    by (simp add: pdf_world_def)
  then have op: "open_w pdf_world ''out/records.jsonl''
      = Inr (pdf_world\<lparr>files := (files pdf_world)(''out/records.jsonl'' \<mapsto> [])\<rparr>)"
    by (simp add: open_w_def)
  show ?thesis
    by (simp add: cmd_extract_def extract_args_def site comm dflt par mk op glob_pdf_example
        extract_metadata_example close_w_def Let_def digit_char_def dec_unfold no_flush_def)
qed

text \<open>
  C1 (counterexample). The output file holds \<^verbatim>\<open>old\<close> before the run. After the run
  it holds the line of the one PDF of the input directory and nothing of what it held
  before.
\<close>

theorem cmd_extract_truncates_counterexample:
  "files pdf_world ''out/records.jsonl'' = Some ''old'' \<and>
   files (snd (cmd_extract (\<lambda>b. b) None (\<lambda>i. utc_2024) no_flush extract_args pdf_world))
     ''out/records.jsonl'' = Some (to_jsonl_line record_a @ [CHR 0x0A]) \<and>
   \<not> prefix ''old'' (to_jsonl_line record_a @ [CHR 0x0A])"
proof -
  have "files pdf_world ''out/records.jsonl'' = Some ''old''"
    by (simp add: pdf_world_def)
  moreover have "\<not> prefix ''old'' (to_jsonl_line record_a @ [CHR 0x0A])"
    by (simp add: to_jsonl_line_def model_dump_def)
  ultimately show ?thesis
    by (simp add: cmd_extract_example)
qed

text \<open>
  C1 (amended). A run of \<^verbatim>\<open>extract\<close> that returns has created the parent directories
  of the output path and opened the output path for writing, which empties it. It has
  then built one record per PDF entry of the input directory as the directory is at
  that moment, in the sorted order of the paths, with \<^verbatim>\<open>file://\<close> and the path as
  source URL; while a record is built, the output file holds what the handle has passed
  on of the lines written before. Afterwards the output file holds exactly the lines of
  these records, each line the JSON of its record followed by a line feed, with no line
  feed inside. What the file held before the run is not kept. Everything else is as
  before the run, and the printed count is the number of lines.
\<close>

theorem cmd_extract_writes_lines:
  assumes "cmd_extract H lib clock flushed args w = (Inr res, w')"
  shows "\<exists>site recs.
           get_site (arg_site args) = Inr site \<and>
           (let out = arg_out args;
                w2 = w\<lparr>dirs := dirs w \<union> set (parent out # ancestors (parent out)),
                       files := (files w)(out \<mapsto> [])\<rparr>;
                pdfs = glob_pdf w2 (arg_input args);
                dtype = (case arg_doc_type args of
                           None \<Rightarrow> default_doc_type site
                         | Some d \<Rightarrow> if d = [] then default_doc_type site else d);
                line = (\<lambda>r. to_jsonl_line r @ [CHR 0x0A])
            in (finite (dom (files w)) \<and> finite (dirs w) \<longrightarrow>
                  set pdfs = {p \<in> dom (files w2) \<union> dirs w2. is_pdf_entry (arg_input args) p} \<and>
                  sorted pdfs \<and> distinct pdfs) \<and>
               length recs = length pdfs \<and>
               (\<forall>i < length pdfs.
                  extract_metadata H lib (clock i)
                    (w2\<lparr>files := (files w)(out \<mapsto> flushed (concat (map line (take i recs))))\<rparr>)
                    (pdfs ! i) (''file://'' @ pdfs ! i) (Some (committee site)) dtype
                  = Inr (recs ! i)) \<and>
               w' = w2\<lparr>files := (files w)(out \<mapsto> concat (map line recs))\<rparr> \<and>
               (\<forall>r \<in> set recs. CHR 0x0A \<notin> set (to_jsonl_line r)) \<and>
               res = (0, ''Wrote '' @ dec (length recs) @ '' records to '' @ out))"
proof -
  let ?out = "arg_out args"
  let ?dtype = "\<lambda>site. case arg_doc_type args of None \<Rightarrow> default_doc_type site
                 | Some d \<Rightarrow> if d = [] then default_doc_type site else d"
  let ?w2 = "w\<lparr>dirs := dirs w \<union> set (parent ?out # ancestors (parent ?out)),
                files := (files w)(?out \<mapsto> [])\<rparr>"
  let ?line = "\<lambda>r. to_jsonl_line r @ [CHR 0x0A]"
  from assms obtain site where site: "get_site (arg_site args) = Inr site"
    by (auto simp: cmd_extract_def split: sum.splits)
  from assms site obtain w1 where mk: "mkdir_parents w (parent ?out) = Inr w1"
    by (auto simp: cmd_extract_def Let_def split: sum.splits)
  from assms site mk obtain w2 where op: "open_w w1 ?out = Inr w2"
    by (auto simp: cmd_extract_def Let_def split: sum.splits)
  from assms site mk op obtain written count where
    loop: "write_records H lib clock flushed w2 ?out site (?dtype site)
             (glob_pdf w2 (arg_input args)) [] 0 = (None, written, count)"
    and res: "res = (0, ''Wrote '' @ dec count @ '' records to '' @ ?out)"
    and w': "w' = close_w w2 ?out written"
    by (auto simp: cmd_extract_def Let_def split: sum.splits prod.splits option.splits)
  from mk have w1: "w1 = w\<lparr>dirs := dirs w \<union> set (parent ?out # ancestors (parent ?out))\<rparr>"
    by (simp add: mkdir_parents_def split: if_splits)
  from op have "w2 = w1\<lparr>files := (files w1)(?out \<mapsto> [])\<rparr>"
    by (simp add: open_w_def split: if_splits)
  with w1 have w2: "w2 = ?w2"
    by simp
  from write_records_None [OF loop] obtain recs where recs:
    "length recs = length (glob_pdf w2 (arg_input args))"
    "count = length (glob_pdf w2 (arg_input args))"
    "written = concat (map ?line recs)"
    "\<forall>i < length (glob_pdf w2 (arg_input args)).
       extract_metadata H lib (clock i)
         (w2\<lparr>files := (files w2)(?out \<mapsto> flushed (concat (map ?line (take i recs))))\<rparr>)
         (glob_pdf w2 (arg_input args) ! i)
         (''file://'' @ glob_pdf w2 (arg_input args) ! i) (Some (committee site)) (?dtype site)
       = Inr (recs ! i)"
    by auto
  have during: "w2\<lparr>files := (files w2)(?out \<mapsto> c)\<rparr> = ?w2\<lparr>files := (files w)(?out \<mapsto> c)\<rparr>" for c
    unfolding w2 by simp
  have after: "w' = ?w2\<lparr>files := (files w)(?out \<mapsto> written)\<rparr>"
    using w' during [of written] by (simp add: close_w_def)
  have entries: "set (glob_pdf ?w2 (arg_input args))
        = {p \<in> dom (files ?w2) \<union> dirs ?w2. is_pdf_entry (arg_input args) p} \<and>
      sorted (glob_pdf ?w2 (arg_input args)) \<and> distinct (glob_pdf ?w2 (arg_input args))"
    if "finite (dom (files w))" "finite (dirs w)"
  proof -
    from that have "finite (dom (files ?w2))" "finite (dirs ?w2)"
      by simp_all
    from glob_pdf_entries [OF this] show ?thesis
      by blast
  qed
  from recs(4) have each: "\<forall>i < length (glob_pdf ?w2 (arg_input args)).
       extract_metadata H lib (clock i)
         (?w2\<lparr>files := (files w)(?out \<mapsto> flushed (concat (map ?line (take i recs))))\<rparr>)
         (glob_pdf ?w2 (arg_input args) ! i)
         (''file://'' @ glob_pdf ?w2 (arg_input args) ! i) (Some (committee site)) (?dtype site)
       = Inr (recs ! i)"
    unfolding during unfolding w2 .
  from recs(1) have len: "length recs = length (glob_pdf ?w2 (arg_input args))"
    unfolding w2 .
  have nl: "\<forall>r \<in> set recs. CHR 0x0A \<notin> set (to_jsonl_line r)"
    by (simp add: to_jsonl_line_no_newline)
  have res': "res = (0, ''Wrote '' @ dec (length recs) @ '' records to '' @ ?out)"
    using res recs(1,2) by simp
  have after': "w' = ?w2\<lparr>files := (files w)(?out \<mapsto> concat (map ?line recs))\<rparr>"
    using after recs(3) by simp
  show ?thesis
    unfolding Let_def
    using site entries len each after' nl res'
    by (intro exI [of _ site] exI [of _ recs] conjI impI) blast+
qed

theorem cmd_extract_writes_lines_witness:
  "cmd_extract (\<lambda>b. b) None (\<lambda>i. utc_2024) no_flush extract_args pdf_world
   = (Inr (0, ''Wrote 1 records to out/records.jsonl''),
      pdf_world\<lparr>files := (files pdf_world)
                  (''out/records.jsonl'' \<mapsto> to_jsonl_line record_a @ [CHR 0x0A])\<rparr>) \<and>
   finite (dom (files pdf_world)) \<and> finite (dirs pdf_world) \<and>
   (\<exists>recs :: DocRecord list.
      length recs
        = length (glob_pdf (pdf_world\<lparr>files := (files pdf_world)(''out/records.jsonl'' \<mapsto> [])\<rparr>)
                    ''in'') \<and>
      (0, ''Wrote 1 records to out/records.jsonl'')
        = (0 :: int, ''Wrote '' @ dec (length recs) @ '' records to '' @ ''out/records.jsonl''))"
proof (intro conjI)
  show run: "cmd_extract (\<lambda>b. b) None (\<lambda>i. utc_2024) no_flush extract_args pdf_world
   = (Inr (0, ''Wrote 1 records to out/records.jsonl''),
      pdf_world\<lparr>files := (files pdf_world)
                  (''out/records.jsonl'' \<mapsto> to_jsonl_line record_a @ [CHR 0x0A])\<rparr>)"
    by (rule cmd_extract_example)
  show "finite (dom (files pdf_world))" and "finite (dirs pdf_world)"
    by (simp_all add: pdf_world_def)
  have "dirs pdf_world \<union> set (parent ''out/records.jsonl''
                 # ancestors (parent ''out/records.jsonl'')) = dirs pdf_world"
    by (auto simp: pdf_world_def parent_def ancestors_def)
  then have opened:
    "pdf_world\<lparr>dirs := dirs pdf_world \<union> set (parent ''out/records.jsonl''
                 # ancestors (parent ''out/records.jsonl'')),
               files := (files pdf_world)(''out/records.jsonl'' \<mapsto> [])\<rparr>
     = pdf_world\<lparr>files := (files pdf_world)(''out/records.jsonl'' \<mapsto> [])\<rparr>"
    by simp
  have args: "arg_out extract_args = ''out/records.jsonl''" "arg_input extract_args = ''in''"
    by (simp_all add: extract_args_def)
  from cmd_extract_writes_lines [OF run]
  show "\<exists>recs :: DocRecord list.
      length recs
        = length (glob_pdf (pdf_world\<lparr>files := (files pdf_world)(''out/records.jsonl'' \<mapsto> [])\<rparr>)
                    ''in'') \<and>
      (0, ''Wrote 1 records to out/records.jsonl'')
        = (0 :: int, ''Wrote '' @ dec (length recs) @ '' records to '' @ ''out/records.jsonl'')"
    unfolding Let_def args opened
    by (elim exE conjE) (rule exI, rule conjI, assumption, assumption)
qed

end
